theory Spec2Isabelle
  imports Complex_Main "HOL-Library.Monad_Syntax" "HOL-Library.Log_Nat"
begin

section \<open>The calculation engine of the growth dashboard (src/src/Dashboard.jsx)\<close>

text \<open>
  The engine is the pair of pure functions \<open>calcTierEconomics\<close> and \<open>projectScenario\<close>
  together with the three margin helpers. JavaScript numbers are modelled as \<open>real\<close>:
  the arithmetic of the source is read as exact arithmetic, so the theorems below speak
  about the formulas of the code, not about the binary rounding of IEEE doubles.
  \<open>Math.round\<close> rounds to the nearest integer, a tie going up.
\<close>

subsection \<open>Numbers\<close>

definition js_round :: "real \<Rightarrow> real" where
  \<comment> \<open>\<open>Math.round(x)\<close>\<close>
  "js_round x = real_of_int \<lfloor>x + 1 / 2\<rfloor>"

definition round2 :: "real \<Rightarrow> real" where
  \<comment> \<open>the inlined idiom \<open>Math.round(x * 100) / 100\<close>\<close>
  "round2 x = js_round (x * 100) / 100"

subsection \<open>Data model\<close>

record BulkProduct =
  id :: string
  name :: string
  sizeLbs :: real
  servings :: real
  wholesale :: real
  cogs :: real

record RetailProduct =
  id :: string
  name :: string
  retailPrice :: real
  wholesalePrice :: real
  cogs :: real

text \<open>
  The two id lists of a tier may be absent: the source reads them as
  \<open>tier.bulkProductIds || []\<close>, so an absent list is \<open>None\<close> here.
\<close>

record Tier =
  id :: string
  label :: string
  bulkProductIds :: "string list option"
  drinksPerDay :: real
  tspPerDrink :: real
  daysPerMonth :: real
  retailProductIds :: "string list option"
  retailUnitsPerMonth :: real

record Scenario =
  name :: string
  startingPartners :: real
  newPartnersPerMonth :: real
  pctSmall :: real
  pctMedium :: real
  pctLarge :: real
  monthlyChurnPct :: real
  retailAttachPct :: real
  color :: string

record BreakdownRow =
  name :: string
  bags :: real
  rev :: real

record TierEconomics =
  servingsPerMonth :: real
  bulkBreakdown :: "BreakdownRow list"
  bulkRev :: real
  bulkProfit :: real
  retailRev :: real
  retailProfit :: real
  totalRev :: real
  totalProfit :: real

record MonthlyResult =
  month :: nat
  label :: string
  totalActive :: real
  small :: real
  medium :: real
  large :: real
  bulkRevenue :: real
  retailRevenue :: real
  totalRevenue :: real
  bulkProfit :: real
  retailProfit :: real
  totalProfit :: real
  marginPct :: real
  cumulativeRev :: real
  cumulativeProfit :: real

subsection \<open>Product economics\<close>

definition calcBulkMargin :: "BulkProduct \<Rightarrow> real" where
  "calcBulkMargin p = wholesale p - BulkProduct.cogs p"

definition calcBulkMarginPct :: "BulkProduct \<Rightarrow> real" where
  "calcBulkMarginPct p =
     (if wholesale p > 0 then (wholesale p - BulkProduct.cogs p) / wholesale p else 0)"

definition calcRetailMargin :: "RetailProduct \<Rightarrow> real" where
  "calcRetailMargin p = wholesalePrice p - RetailProduct.cogs p"

subsection \<open>Tier economics\<close>

definition includes_or_empty :: "string list option \<Rightarrow> string \<Rightarrow> bool" where
  \<comment> \<open>\<open>(ids || []).includes(pid)\<close>\<close>
  "includes_or_empty ids pid = (case ids of None \<Rightarrow> False | Some xs \<Rightarrow> pid \<in> set xs)"

definition selectedBulk :: "Tier \<Rightarrow> BulkProduct list \<Rightarrow> BulkProduct list" where
  "selectedBulk tier bulkProducts =
     filter (\<lambda>p. includes_or_empty (bulkProductIds tier) (BulkProduct.id p)) bulkProducts"

definition selectedRetail :: "Tier \<Rightarrow> RetailProduct list \<Rightarrow> RetailProduct list" where
  "selectedRetail tier retailProducts =
     filter (\<lambda>p. includes_or_empty (retailProductIds tier) (RetailProduct.id p)) retailProducts"

text \<open>
  The callback of \<open>selectedBulk.map\<close>: it adds to the two running sums \<open>bulkRev\<close> and
  \<open>bulkProfit\<close> and returns one row of the breakdown. The accumulator is the triple of
  the two sums and the rows produced so far.
\<close>

definition bulk_step ::
  "real \<Rightarrow> real \<times> real \<times> BreakdownRow list \<Rightarrow> BulkProduct \<Rightarrow> real \<times> real \<times> BreakdownRow list"
where
  "bulk_step servingsPerProduct acc bulk =
     (case acc of (bulkRev', bulkProfit', rows) \<Rightarrow>
        let bags' = (if servings bulk > 0 then servingsPerProduct / servings bulk else 0);
            rev' = bags' * wholesale bulk;
            profit = bags' * calcBulkMargin bulk
        in (bulkRev' + rev', bulkProfit' + profit,
            rows @ [\<lparr>BreakdownRow.name = BulkProduct.name bulk,
                     bags = round2 bags', rev = round2 rev'\<rparr>]))"

text \<open>The callback of \<open>selectedRetail.forEach\<close>, on the pair of running sums.\<close>

definition retail_step :: "real \<Rightarrow> real \<times> real \<Rightarrow> RetailProduct \<Rightarrow> real \<times> real" where
  "retail_step retailUnitsPerProduct acc retail =
     (case acc of (retailRev', retailProfit') \<Rightarrow>
        (retailRev' + retailUnitsPerProduct * wholesalePrice retail,
         retailProfit' + retailUnitsPerProduct * calcRetailMargin retail))"

definition calcTierEconomics ::
  "Tier \<Rightarrow> BulkProduct list \<Rightarrow> RetailProduct list \<Rightarrow> TierEconomics"
where
  "calcTierEconomics tier bulkProducts retailProducts =
     (let selBulk = selectedBulk tier bulkProducts;
          selRetail = selectedRetail tier retailProducts;
          totalServingsPerMonth = drinksPerDay tier * tspPerDrink tier * daysPerMonth tier;
          servingsPerProduct =
            (if length selBulk > 0 then totalServingsPerMonth / real (length selBulk) else 0);
          (bulkRev', bulkProfit', bulkBreakdown') =
            foldl (bulk_step servingsPerProduct) (0, 0, []) selBulk;
          retailUnitsPerProduct =
            (if length selRetail > 0 then retailUnitsPerMonth tier / real (length selRetail)
             else 0);
          (retailRev', retailProfit') =
            foldl (retail_step retailUnitsPerProduct) (0, 0) selRetail
      in \<lparr>servingsPerMonth = totalServingsPerMonth,
          bulkBreakdown = bulkBreakdown',
          bulkRev = round2 bulkRev',
          bulkProfit = round2 bulkProfit',
          retailRev = retailRev',
          retailProfit = retailProfit',
          totalRev = round2 (bulkRev' + retailRev'),
          totalProfit = round2 (bulkProfit' + retailProfit')\<rparr>)"

subsection \<open>Tier economics with the divisions checked\<close>

text \<open>
  In HOL \<open>x / 0 = 0\<close>, whereas JavaScript yields \<open>Infinity\<close> or \<open>NaN\<close>, which are no
  real numbers. To state that no division of \<open>calcTierEconomics\<close> meets a zero divisor,
  the same function is written once more with every \<open>/\<close> of the source replaced by a
  division that fails on a zero divisor.
\<close>

definition js_div :: "real \<Rightarrow> real \<Rightarrow> real option" where
  "js_div a b = (if b = 0 then None else Some (a / b))"

definition round2_chk :: "real \<Rightarrow> real option" where
  "round2_chk x = js_div (js_round (x * 100)) 100"

fun foldl_chk :: "('a \<Rightarrow> 'b \<Rightarrow> 'a option) \<Rightarrow> 'a \<Rightarrow> 'b list \<Rightarrow> 'a option" where
  "foldl_chk f a [] = Some a"
| "foldl_chk f a (x # xs) = (case f a x of None \<Rightarrow> None | Some a' \<Rightarrow> foldl_chk f a' xs)"

definition bulk_step_chk ::
  "real \<Rightarrow> real \<times> real \<times> BreakdownRow list \<Rightarrow> BulkProduct
     \<Rightarrow> (real \<times> real \<times> BreakdownRow list) option"
where
  "bulk_step_chk servingsPerProduct acc bulk =
     (case acc of (bulkRev', bulkProfit', rows) \<Rightarrow>
        do {
          bags' \<leftarrow> (if servings bulk > 0 then js_div servingsPerProduct (servings bulk)
                    else Some 0);
          let rev' = bags' * wholesale bulk;
          let profit = bags' * calcBulkMargin bulk;
          rbags \<leftarrow> round2_chk bags';
          rrev \<leftarrow> round2_chk rev';
          Some (bulkRev' + rev', bulkProfit' + profit,
                rows @ [\<lparr>BreakdownRow.name = BulkProduct.name bulk, bags = rbags, rev = rrev\<rparr>])
        })"

definition calcTierEconomics_chk ::
  "Tier \<Rightarrow> BulkProduct list \<Rightarrow> RetailProduct list \<Rightarrow> TierEconomics option"
where
  "calcTierEconomics_chk tier bulkProducts retailProducts =
     (let selBulk = selectedBulk tier bulkProducts;
          selRetail = selectedRetail tier retailProducts;
          totalServingsPerMonth = drinksPerDay tier * tspPerDrink tier * daysPerMonth tier
      in do {
        servingsPerProduct \<leftarrow>
          (if length selBulk > 0 then js_div totalServingsPerMonth (real (length selBulk))
           else Some 0);
        (bulkRev', bulkProfit', bulkBreakdown') \<leftarrow>
          foldl_chk (bulk_step_chk servingsPerProduct) (0, 0, []) selBulk;
        retailUnitsPerProduct \<leftarrow>
          (if length selRetail > 0
           then js_div (retailUnitsPerMonth tier) (real (length selRetail))
           else Some 0);
        let (retailRev', retailProfit') =
          foldl (retail_step retailUnitsPerProduct) (0, 0) selRetail;
        rBulkRev \<leftarrow> round2_chk bulkRev';
        rBulkProfit \<leftarrow> round2_chk bulkProfit';
        rTotalRev \<leftarrow> round2_chk (bulkRev' + retailRev');
        rTotalProfit \<leftarrow> round2_chk (bulkProfit' + retailProfit');
        Some \<lparr>servingsPerMonth = totalServingsPerMonth,
              bulkBreakdown = bulkBreakdown',
              bulkRev = rBulkRev,
              bulkProfit = rBulkProfit,
              retailRev = retailRev',
              retailProfit = retailProfit',
              totalRev = rTotalRev,
              totalProfit = rTotalProfit\<rparr>
      })"

subsection \<open>Unrounded tier economics\<close>

text \<open>
  The quantities of \<open>calcTierEconomics\<close> before rounding, written as sums over the
  selected products: the locals \<open>servingsPerProduct\<close>, \<open>bags\<close> and
  \<open>retailUnitsPerProduct\<close>, and the values of the four running sums at the \<open>return\<close>.
\<close>

definition servingsPerProduct :: "Tier \<Rightarrow> BulkProduct list \<Rightarrow> real" where
  "servingsPerProduct tier bulkProducts =
     (if length (selectedBulk tier bulkProducts) > 0
      then drinksPerDay tier * tspPerDrink tier * daysPerMonth tier
           / real (length (selectedBulk tier bulkProducts))
      else 0)"

definition bagsNeeded :: "real \<Rightarrow> BulkProduct \<Rightarrow> real" where
  "bagsNeeded perProduct bulk = (if servings bulk > 0 then perProduct / servings bulk else 0)"

definition retailUnitsPerProduct :: "Tier \<Rightarrow> RetailProduct list \<Rightarrow> real" where
  "retailUnitsPerProduct tier retailProducts =
     (if length (selectedRetail tier retailProducts) > 0
      then retailUnitsPerMonth tier / real (length (selectedRetail tier retailProducts))
      else 0)"

definition unroundedBulkRev :: "Tier \<Rightarrow> BulkProduct list \<Rightarrow> real" where
  "unroundedBulkRev tier bulkProducts =
     (\<Sum>b\<leftarrow>selectedBulk tier bulkProducts.
        bagsNeeded (servingsPerProduct tier bulkProducts) b * wholesale b)"

definition unroundedBulkProfit :: "Tier \<Rightarrow> BulkProduct list \<Rightarrow> real" where
  "unroundedBulkProfit tier bulkProducts =
     (\<Sum>b\<leftarrow>selectedBulk tier bulkProducts.
        bagsNeeded (servingsPerProduct tier bulkProducts) b * calcBulkMargin b)"

definition unroundedRetailRev :: "Tier \<Rightarrow> RetailProduct list \<Rightarrow> real" where
  "unroundedRetailRev tier retailProducts =
     (\<Sum>r\<leftarrow>selectedRetail tier retailProducts.
        retailUnitsPerProduct tier retailProducts * wholesalePrice r)"

definition unroundedRetailProfit :: "Tier \<Rightarrow> RetailProduct list \<Rightarrow> real" where
  "unroundedRetailProfit tier retailProducts =
     (\<Sum>r\<leftarrow>selectedRetail tier retailProducts.
        retailUnitsPerProduct tier retailProducts * calcRetailMargin r)"

subsection \<open>Scenario projection\<close>

text \<open>The three cohort keys \<open>"small"\<close>, \<open>"medium"\<close>, \<open>"large"\<close>.\<close>

datatype Size = Small | Medium | Large

definition nth_opt :: "'a list \<Rightarrow> nat \<Rightarrow> 'a option" where
  \<comment> \<open>\<open>xs[i]\<close>, which is \<open>undefined\<close> beyond the end of the array\<close>
  "nth_opt xs i = (if i < length xs then Some (xs ! i) else None)"

definition tierEcon ::
  "Tier list \<Rightarrow> BulkProduct list \<Rightarrow> RetailProduct list \<Rightarrow> (string \<rightharpoonup> TierEconomics)"
where
  \<comment> \<open>\<open>tiers.forEach(t => { tierEcon[t.id] = calcTierEconomics(t, ...) })\<close>\<close>
  "tierEcon tiers bulkProducts retailProducts =
     foldl (\<lambda>m t. m(Tier.id t \<mapsto> calcTierEconomics t bulkProducts retailProducts))
       Map.empty tiers"

text \<open>The position in \<open>tiers\<close> that \<open>tierMap\<close> reads for each of the three keys.\<close>

fun sizeIndex :: "Size \<Rightarrow> nat" where
  "sizeIndex Small = 0"
| "sizeIndex Medium = 1"
| "sizeIndex Large = 2"

definition tierMap :: "Tier list \<Rightarrow> Size \<Rightarrow> string option" where
  \<comment> \<open>\<open>{ small: tiers[0]?.id, medium: tiers[1]?.id, large: tiers[2]?.id }\<close>\<close>
  "tierMap tiers sz = map_option Tier.id (nth_opt tiers (sizeIndex sz))"

text \<open>
  The four running sums \<open>bulkRev\<close>, \<open>bulkProfit\<close>, \<open>retailRev\<close>, \<open>retailProfit\<close> that
  one pass of the loop declares with \<open>let\<close> and fills in the \<open>forEach\<close>.
\<close>

record CohortSums =
  bulkRev :: real
  bulkProfit :: real
  retailRev :: real
  retailProfit :: real

text \<open>
  The callback of \<open>["small", "medium", "large"].forEach\<close>. The test
  \<open>tid && tierEcon[tid]\<close> fails for an absent id, for the empty string and for an id
  without an entry.
\<close>

definition cohort_step ::
  "(string \<rightharpoonup> TierEconomics) \<Rightarrow> (Size \<Rightarrow> string option) \<Rightarrow> (Size \<Rightarrow> real) \<Rightarrow> real
     \<Rightarrow> CohortSums \<Rightarrow> Size \<Rightarrow> CohortSums"
where
  "cohort_step tierEcon' tierMap' counts retailAttach acc sz =
     (case tierMap' sz of
        None \<Rightarrow> acc
      | Some tid \<Rightarrow>
          if tid \<noteq> [] then
            (case tierEcon' tid of
               None \<Rightarrow> acc
             | Some e \<Rightarrow>
                 \<lparr>CohortSums.bulkRev =
                    CohortSums.bulkRev acc + counts sz * TierEconomics.bulkRev e,
                  CohortSums.bulkProfit =
                    CohortSums.bulkProfit acc + counts sz * TierEconomics.bulkProfit e,
                  CohortSums.retailRev =
                    CohortSums.retailRev acc
                    + counts sz * TierEconomics.retailRev e * retailAttach,
                  CohortSums.retailProfit =
                    CohortSums.retailProfit acc
                    + counts sz * TierEconomics.retailProfit e * retailAttach\<rparr>)
          else acc)"

definition cohortCounts :: "real \<Rightarrow> real \<Rightarrow> real \<Rightarrow> real \<Rightarrow> Size \<Rightarrow> real" where
  \<comment> \<open>\<open>{ small: totalActive * sF, medium: totalActive * mF, large: totalActive * lF }\<close>\<close>
  "cohortCounts active sF mF lF sz =
     (case sz of Small \<Rightarrow> active * sF | Medium \<Rightarrow> active * mF | Large \<Rightarrow> active * lF)"

definition cohortTotals ::
  "(string \<rightharpoonup> TierEconomics) \<Rightarrow> (Size \<Rightarrow> string option) \<Rightarrow> (Size \<Rightarrow> real) \<Rightarrow> real
     \<Rightarrow> CohortSums"
where
  "cohortTotals tierEcon' tierMap' counts retailAttach =
     foldl (cohort_step tierEcon' tierMap' counts retailAttach)
       \<lparr>CohortSums.bulkRev = 0, CohortSums.bulkProfit = 0,
        CohortSums.retailRev = 0, CohortSums.retailProfit = 0\<rparr>
       [Small, Medium, Large]"

fun show_nat :: "nat \<Rightarrow> string" where
  "show_nat n =
     (if n < 10 then [char_of (48 + n)]
      else show_nat (n div 10) @ [char_of (48 + n mod 10)])"

declare show_nat.simps [simp del]

text \<open>
  The state that the loop \<open>for (let m = 1; m <= 12; m++)\<close> carries from month to month:
  the variables \<open>totalActive\<close>, \<open>cumulativeRev\<close>, \<open>cumulativeProfit\<close> and the array
  \<open>months\<close>.
\<close>

record LoopState =
  totalActive :: real
  cumulativeRev :: real
  cumulativeProfit :: real
  months :: "MonthlyResult list"

text \<open>One pass of the body of the loop, for the month \<open>m\<close>.\<close>

definition month_body ::
  "(string \<rightharpoonup> TierEconomics) \<Rightarrow> (Size \<Rightarrow> string option) \<Rightarrow> real \<Rightarrow> real \<Rightarrow> real \<Rightarrow> real
     \<Rightarrow> real \<Rightarrow> real \<Rightarrow> LoopState \<Rightarrow> nat \<Rightarrow> LoopState"
where
  "month_body tierEcon' tierMap' sF mF lF churn retailAttach newPartners st m =
     (let active =
            (if m > 1 then LoopState.totalActive st * (1 - churn) + newPartners
             else LoopState.totalActive st);
          counts = cohortCounts active sF mF lF;
          acc = cohortTotals tierEcon' tierMap' counts retailAttach;
          totalRev' = CohortSums.bulkRev acc + CohortSums.retailRev acc;
          totalProfit' = CohortSums.bulkProfit acc + CohortSums.retailProfit acc;
          cumRev = LoopState.cumulativeRev st + totalRev';
          cumProfit = LoopState.cumulativeProfit st + totalProfit'
      in \<lparr>LoopState.totalActive = active,
          LoopState.cumulativeRev = cumRev,
          LoopState.cumulativeProfit = cumProfit,
          LoopState.months = months st @
            [\<lparr>month = m, label = ''M'' @ show_nat m,
              MonthlyResult.totalActive = round2 active,
              small = round2 (counts Small),
              medium = round2 (counts Medium),
              large = round2 (counts Large),
              bulkRevenue = js_round (CohortSums.bulkRev acc),
              retailRevenue = js_round (CohortSums.retailRev acc),
              totalRevenue = js_round totalRev',
              MonthlyResult.bulkProfit = js_round (CohortSums.bulkProfit acc),
              MonthlyResult.retailProfit = js_round (CohortSums.retailProfit acc),
              MonthlyResult.totalProfit = js_round totalProfit',
              marginPct =
                (if totalRev' > 0 then js_round ((totalProfit' / totalRev') * 1000) / 10
                 else 0),
              MonthlyResult.cumulativeRev = js_round cumRev,
              MonthlyResult.cumulativeProfit = js_round cumProfit\<rparr>]\<rparr>)"

text \<open>
  The loop with its bound as a parameter: \<open>projectLoop \<dots> n\<close> is the state after the
  passes for \<open>m = 1, \<dots>, n\<close>. The source runs it with the bound 12 and returns \<open>months\<close>.
\<close>

definition projectLoop ::
  "Scenario \<Rightarrow> Tier list \<Rightarrow> BulkProduct list \<Rightarrow> RetailProduct list \<Rightarrow> nat \<Rightarrow> LoopState"
where
  "projectLoop scenario tiers bulkProducts retailProducts n =
     (let tierEcon' = tierEcon tiers bulkProducts retailProducts;
          tierMap' = tierMap tiers;
          sF = pctSmall scenario / 100;
          mF = pctMedium scenario / 100;
          lF = pctLarge scenario / 100;
          churn = monthlyChurnPct scenario / 100;
          retailAttach = retailAttachPct scenario / 100
      in foldl
           (month_body tierEcon' tierMap' sF mF lF churn retailAttach
              (newPartnersPerMonth scenario))
           \<lparr>LoopState.totalActive = startingPartners scenario,
            LoopState.cumulativeRev = 0, LoopState.cumulativeProfit = 0,
            LoopState.months = []\<rparr>
           [1 ..< Suc n])"

definition projectScenario ::
  "Scenario \<Rightarrow> Tier list \<Rightarrow> BulkProduct list \<Rightarrow> RetailProduct list \<Rightarrow> MonthlyResult list"
where
  "projectScenario scenario tiers bulkProducts retailProducts =
     months (projectLoop scenario tiers bulkProducts retailProducts 12)"

text \<open>
  The four unrounded sums of the month \<open>m\<close>: the value of \<open>bulkRev\<close>, \<open>bulkProfit\<close>,
  \<open>retailRev\<close> and \<open>retailProfit\<close> when the \<open>forEach\<close> of pass \<open>m\<close> has finished.
\<close>

definition monthTotals ::
  "Scenario \<Rightarrow> Tier list \<Rightarrow> BulkProduct list \<Rightarrow> RetailProduct list \<Rightarrow> nat \<Rightarrow> CohortSums"
where
  "monthTotals scenario tiers bulkProducts retailProducts m =
     cohortTotals (tierEcon tiers bulkProducts retailProducts) (tierMap tiers)
       (cohortCounts
          (LoopState.totalActive (projectLoop scenario tiers bulkProducts retailProducts m))
          (pctSmall scenario / 100) (pctMedium scenario / 100) (pctLarge scenario / 100))
       (retailAttachPct scenario / 100)"

text \<open>
  The positional reading of the specification: the cohort at position \<open>i\<close> takes the
  per-partner figure \<open>f\<close> of the \<open>i\<close>-th tier, and nothing when there is no such tier.
\<close>

definition positionalShare ::
  "Tier list \<Rightarrow> BulkProduct list \<Rightarrow> RetailProduct list \<Rightarrow> (TierEconomics \<Rightarrow> real) \<Rightarrow> nat
     \<Rightarrow> real"
where
  "positionalShare tiers bulkProducts retailProducts f i =
     (if i < length tiers then f (calcTierEconomics (tiers ! i) bulkProducts retailProducts)
      else 0)"

definition positionalSum ::
  "Tier list \<Rightarrow> BulkProduct list \<Rightarrow> RetailProduct list \<Rightarrow> (TierEconomics \<Rightarrow> real)
     \<Rightarrow> (Size \<Rightarrow> real) \<Rightarrow> real"
where
  "positionalSum tiers bulkProducts retailProducts f counts =
     (\<Sum>sz\<leftarrow>[Small, Medium, Large].
        counts sz * positionalShare tiers bulkProducts retailProducts f (sizeIndex sz))"

subsection \<open>The default data of the dashboard\<close>

definition DEFAULT_BULK_PRODUCTS :: "BulkProduct list" where
  "DEFAULT_BULK_PRODUCTS =
     [\<lparr>BulkProduct.id = ''ev1'', name = ''Everyday Cafe Bag 1lb'', sizeLbs = 1,
        servings = 180, wholesale = 80, cogs = 1293 / 100\<rparr>,
      \<lparr>BulkProduct.id = ''ev5'', name = ''Everyday Cafe Bag 5lb'', sizeLbs = 5,
        servings = 900, wholesale = 300, cogs = 60\<rparr>,
      \<lparr>BulkProduct.id = ''dk5'', name = ''Dusk Cafe Bag 5lb'', sizeLbs = 5,
        servings = 107, wholesale = 108, cogs = 53\<rparr>,
      \<lparr>BulkProduct.id = ''dk10'', name = ''Dusk Cafe Bag 10lb'', sizeLbs = 10,
        servings = 214, wholesale = 195, cogs = 100\<rparr>]"

definition DEFAULT_RETAIL_PRODUCTS :: "RetailProduct list" where
  "DEFAULT_RETAIL_PRODUCTS =
     [\<lparr>RetailProduct.id = ''evp'', name = ''Everyday Pouch'', retailPrice = 24,
        wholesalePrice = 12, cogs = 4\<rparr>,
      \<lparr>RetailProduct.id = ''dkp'', name = ''Dusk Pouch'', retailPrice = 24,
        wholesalePrice = 12, cogs = 8\<rparr>]"

definition DEFAULT_TIERS :: "Tier list" where
  "DEFAULT_TIERS =
     [\<lparr>Tier.id = ''small'', label = ''Small Cafe'', bulkProductIds = Some [''ev1''],
        drinksPerDay = 10, tspPerDrink = 1, daysPerMonth = 30,
        retailProductIds = Some [''evp''], retailUnitsPerMonth = 10\<rparr>,
      \<lparr>Tier.id = ''medium'', label = ''Medium Cafe'', bulkProductIds = Some [''ev5''],
        drinksPerDay = 40, tspPerDrink = 1, daysPerMonth = 30,
        retailProductIds = Some [''evp''], retailUnitsPerMonth = 15\<rparr>,
      \<lparr>Tier.id = ''large'', label = ''Large Cafe'', bulkProductIds = Some [''ev5'', ''dk5''],
        drinksPerDay = 60, tspPerDrink = 1, daysPerMonth = 30,
        retailProductIds = Some [''evp'', ''dkp''], retailUnitsPerMonth = 25\<rparr>]"

definition BASE_CASE :: Scenario where
  \<comment> \<open>the first entry of \<open>DEFAULT_SCENARIOS\<close>\<close>
  "BASE_CASE =
     \<lparr>Scenario.name = ''Base Case'', startingPartners = 1, newPartnersPerMonth = 2,
      pctSmall = 50, pctMedium = 35, pctLarge = 15, monthlyChurnPct = 2,
      retailAttachPct = 50, color = ''#f5b5c2''\<rparr>"


subsection \<open>Further inputs used in the examples\<close>

definition AGGRESSIVE_HALF :: Scenario where
  \<comment> \<open>the second entry of \<open>DEFAULT_SCENARIOS\<close>, the churn slider moved from 3 to 2.5\<close>
  "AGGRESSIVE_HALF =
     \<lparr>Scenario.name = ''Aggressive'', startingPartners = 1, newPartnersPerMonth = 4,
      pctSmall = 35, pctMedium = 40, pctLarge = 25, monthlyChurnPct = 5 / 2,
      retailAttachPct = 75, color = ''#fdd160''\<rparr>"

definition OVERFULL_MIX :: Scenario where
  \<comment> \<open>the Base Case with a cohort mix that adds up to 110 percent\<close>
  "OVERFULL_MIX = BASE_CASE\<lparr>pctLarge := 25\<rparr>"

definition TWO_TIERS :: "Tier list" where
  \<comment> \<open>the default small and medium cafe, with no third tier\<close>
  "TWO_TIERS = [DEFAULT_TIERS ! 0, DEFAULT_TIERS ! 1]"

definition DANGLING_TIER :: Tier where
  \<comment> \<open>the small cafe, with bulk ids that no catalog entry carries\<close>
  "DANGLING_TIER = (DEFAULT_TIERS ! 0)\<lparr>bulkProductIds := Some [''gone'', ''ev9'']\<rparr>"

definition NEGATIVE_BAG :: BulkProduct where
  "NEGATIVE_BAG =
     \<lparr>BulkProduct.id = ''ev1'', name = ''Everyday Cafe Bag 1lb'', sizeLbs = 1,
      servings = - 180, wholesale = 80, cogs = 1293 / 100\<rparr>"

section \<open>The engine in double precision\<close>

text \<open>
  The numbers of the source are IEEE 754 doubles: every \<open>+\<close>, \<open>-\<close>, \<open>*\<close> and \<open>/\<close> returns the
  double nearest to the exact result, a tie going to the even significand. Where a
  returned field sits on a rounding tie of \<open>Math.round\<close>, the double and the exact
  result round to different sides, so the claims about returned fields are stated on the
  engine below, which rounds after every operation. A double is modelled by the real
  number it denotes, with 53 significant bits; the exponent is not bounded, so the model
  and the doubles agree as long as no result leaves the range of the normal doubles
  (magnitudes between \<open>2^-1022\<close> and \<open>2^1024\<close>, or zero).
\<close>

subsection \<open>Rounding to a double\<close>

definition pow2 :: "int \<Rightarrow> real" where
  "pow2 e = (if 0 \<le> e then 2 ^ nat e else 1 / 2 ^ nat (- e))"

definition expo :: "real \<Rightarrow> int" where
  \<comment> \<open>the binary exponent of a non-zero number: \<open>pow2 (expo x) \<le> \<bar>x\<bar> < pow2 (expo x + 1)\<close>\<close>
  "expo x = (if 1 \<le> \<bar>x\<bar> then bitlen \<lfloor>\<bar>x\<bar>\<rfloor> - 1 else - bitlen (\<lceil>1 / \<bar>x\<bar>\<rceil> - 1))"

definition rne :: "real \<Rightarrow> int" where
  \<comment> \<open>the nearest integer, a tie going to the even one\<close>
  "rne y = (let f = \<lfloor>y\<rfloor>; d = y - real_of_int f
            in if d < 1 / 2 then f else if 1 / 2 < d then f + 1
               else if even f then f else f + 1)"

definition fl64 :: "real \<Rightarrow> real" where
  \<comment> \<open>the nearest number with a significand of 53 bits\<close>
  "fl64 x = (if x = 0 then 0
             else real_of_int (rne (x / pow2 (expo x - 52))) * pow2 (expo x - 52))"

definition fadd :: "real \<Rightarrow> real \<Rightarrow> real" where "fadd a b = fl64 (a + b)"

definition fsub :: "real \<Rightarrow> real \<Rightarrow> real" where "fsub a b = fl64 (a - b)"

definition fmul :: "real \<Rightarrow> real \<Rightarrow> real" where "fmul a b = fl64 (a * b)"

definition fdiv :: "real \<Rightarrow> real \<Rightarrow> real" where "fdiv a b = fl64 (a / b)"

definition round2_f64 :: "real \<Rightarrow> real" where
  \<comment> \<open>\<open>Math.round(x * 100) / 100\<close>; \<open>Math.round\<close> itself is exact on a double\<close>
  "round2_f64 x = fdiv (js_round (fmul x 100)) 100"

subsection \<open>Tier economics in double precision\<close>

definition calcBulkMargin_f64 :: "BulkProduct \<Rightarrow> real" where
  "calcBulkMargin_f64 p = fsub (wholesale p) (BulkProduct.cogs p)"

definition calcRetailMargin_f64 :: "RetailProduct \<Rightarrow> real" where
  "calcRetailMargin_f64 p = fsub (wholesalePrice p) (RetailProduct.cogs p)"

definition bulk_step_f64 ::
  "real \<Rightarrow> real \<times> real \<times> BreakdownRow list \<Rightarrow> BulkProduct \<Rightarrow> real \<times> real \<times> BreakdownRow list"
where
  "bulk_step_f64 perProduct acc bulk =
     (case acc of (bulkRev', bulkProfit', rows) \<Rightarrow>
        let bags' = (if servings bulk > 0 then fdiv perProduct (servings bulk) else 0);
            rev' = fmul bags' (wholesale bulk);
            profit = fmul bags' (calcBulkMargin_f64 bulk)
        in (fadd bulkRev' rev', fadd bulkProfit' profit,
            rows @ [\<lparr>BreakdownRow.name = BulkProduct.name bulk,
                     bags = round2_f64 bags', rev = round2_f64 rev'\<rparr>]))"

definition retail_step_f64 :: "real \<Rightarrow> real \<times> real \<Rightarrow> RetailProduct \<Rightarrow> real \<times> real" where
  "retail_step_f64 unitsPerProduct acc retail =
     (case acc of (retailRev', retailProfit') \<Rightarrow>
        (fadd retailRev' (fmul unitsPerProduct (wholesalePrice retail)),
         fadd retailProfit' (fmul unitsPerProduct (calcRetailMargin_f64 retail))))"

definition calcTierEconomics_f64 ::
  "Tier \<Rightarrow> BulkProduct list \<Rightarrow> RetailProduct list \<Rightarrow> TierEconomics"
where
  "calcTierEconomics_f64 tier bulkProducts retailProducts =
     (let selBulk = selectedBulk tier bulkProducts;
          selRetail = selectedRetail tier retailProducts;
          totalServingsPerMonth =
            fmul (fmul (drinksPerDay tier) (tspPerDrink tier)) (daysPerMonth tier);
          perProduct =
            (if length selBulk > 0 then fdiv totalServingsPerMonth (real (length selBulk))
             else 0);
          (bulkRev', bulkProfit', bulkBreakdown') =
            foldl (bulk_step_f64 perProduct) (0, 0, []) selBulk;
          unitsPerProduct =
            (if length selRetail > 0
             then fdiv (retailUnitsPerMonth tier) (real (length selRetail)) else 0);
          (retailRev', retailProfit') =
            foldl (retail_step_f64 unitsPerProduct) (0, 0) selRetail
      in \<lparr>servingsPerMonth = totalServingsPerMonth,
          bulkBreakdown = bulkBreakdown',
          bulkRev = round2_f64 bulkRev',
          bulkProfit = round2_f64 bulkProfit',
          retailRev = retailRev',
          retailProfit = retailProfit',
          totalRev = round2_f64 (fadd bulkRev' retailRev'),
          totalProfit = round2_f64 (fadd bulkProfit' retailProfit')\<rparr>)"

text \<open>
  The quantities of \<open>calcTierEconomics\<close> before the rounding to cents, in double
  precision: the locals \<open>servingsPerProduct\<close>, \<open>bags\<close> and \<open>retailUnitsPerProduct\<close>, and
  the four running sums at the \<open>return\<close>, added up from 0 in the order of the catalog.
\<close>

definition servingsPerProduct_f64 :: "Tier \<Rightarrow> BulkProduct list \<Rightarrow> real" where
  "servingsPerProduct_f64 tier bulkProducts =
     (if length (selectedBulk tier bulkProducts) > 0
      then fdiv (fmul (fmul (drinksPerDay tier) (tspPerDrink tier)) (daysPerMonth tier))
             (real (length (selectedBulk tier bulkProducts)))
      else 0)"

definition bagsNeeded_f64 :: "real \<Rightarrow> BulkProduct \<Rightarrow> real" where
  "bagsNeeded_f64 perProduct bulk =
     (if servings bulk > 0 then fdiv perProduct (servings bulk) else 0)"

definition retailUnitsPerProduct_f64 :: "Tier \<Rightarrow> RetailProduct list \<Rightarrow> real" where
  "retailUnitsPerProduct_f64 tier retailProducts =
     (if length (selectedRetail tier retailProducts) > 0
      then fdiv (retailUnitsPerMonth tier) (real (length (selectedRetail tier retailProducts)))
      else 0)"

definition unroundedBulkRev_f64 :: "Tier \<Rightarrow> BulkProduct list \<Rightarrow> real" where
  "unroundedBulkRev_f64 tier bulkProducts =
     foldl fadd 0
       (map (\<lambda>b. fmul (bagsNeeded_f64 (servingsPerProduct_f64 tier bulkProducts) b)
                   (wholesale b))
          (selectedBulk tier bulkProducts))"

definition unroundedBulkProfit_f64 :: "Tier \<Rightarrow> BulkProduct list \<Rightarrow> real" where
  "unroundedBulkProfit_f64 tier bulkProducts =
     foldl fadd 0
       (map (\<lambda>b. fmul (bagsNeeded_f64 (servingsPerProduct_f64 tier bulkProducts) b)
                   (calcBulkMargin_f64 b))
          (selectedBulk tier bulkProducts))"

definition unroundedRetailRev_f64 :: "Tier \<Rightarrow> RetailProduct list \<Rightarrow> real" where
  "unroundedRetailRev_f64 tier retailProducts =
     foldl fadd 0
       (map (\<lambda>r. fmul (retailUnitsPerProduct_f64 tier retailProducts) (wholesalePrice r))
          (selectedRetail tier retailProducts))"

definition unroundedRetailProfit_f64 :: "Tier \<Rightarrow> RetailProduct list \<Rightarrow> real" where
  "unroundedRetailProfit_f64 tier retailProducts =
     foldl fadd 0
       (map (\<lambda>r. fmul (retailUnitsPerProduct_f64 tier retailProducts)
                   (calcRetailMargin_f64 r))
          (selectedRetail tier retailProducts))"

subsection \<open>Scenario projection in double precision\<close>

definition tierEcon_f64 ::
  "Tier list \<Rightarrow> BulkProduct list \<Rightarrow> RetailProduct list \<Rightarrow> (string \<rightharpoonup> TierEconomics)"
where
  "tierEcon_f64 tiers bulkProducts retailProducts =
     foldl (\<lambda>m t. m(Tier.id t \<mapsto> calcTierEconomics_f64 t bulkProducts retailProducts))
       Map.empty tiers"

definition cohort_step_f64 ::
  "(string \<rightharpoonup> TierEconomics) \<Rightarrow> (Size \<Rightarrow> string option) \<Rightarrow> (Size \<Rightarrow> real) \<Rightarrow> real
     \<Rightarrow> CohortSums \<Rightarrow> Size \<Rightarrow> CohortSums"
where
  "cohort_step_f64 tierEcon' tierMap' counts retailAttach acc sz =
     (case tierMap' sz of
        None \<Rightarrow> acc
      | Some tid \<Rightarrow>
          if tid \<noteq> [] then
            (case tierEcon' tid of
               None \<Rightarrow> acc
             | Some e \<Rightarrow>
                 \<lparr>CohortSums.bulkRev =
                    fadd (CohortSums.bulkRev acc) (fmul (counts sz) (TierEconomics.bulkRev e)),
                  CohortSums.bulkProfit =
                    fadd (CohortSums.bulkProfit acc)
                      (fmul (counts sz) (TierEconomics.bulkProfit e)),
                  CohortSums.retailRev =
                    fadd (CohortSums.retailRev acc)
                      (fmul (fmul (counts sz) (TierEconomics.retailRev e)) retailAttach),
                  CohortSums.retailProfit =
                    fadd (CohortSums.retailProfit acc)
                      (fmul (fmul (counts sz) (TierEconomics.retailProfit e)) retailAttach)\<rparr>)
          else acc)"

definition cohortCounts_f64 :: "real \<Rightarrow> real \<Rightarrow> real \<Rightarrow> real \<Rightarrow> Size \<Rightarrow> real" where
  "cohortCounts_f64 active sF mF lF sz =
     (case sz of Small \<Rightarrow> fmul active sF | Medium \<Rightarrow> fmul active mF | Large \<Rightarrow> fmul active lF)"

definition cohortTotals_f64 ::
  "(string \<rightharpoonup> TierEconomics) \<Rightarrow> (Size \<Rightarrow> string option) \<Rightarrow> (Size \<Rightarrow> real) \<Rightarrow> real
     \<Rightarrow> CohortSums"
where
  "cohortTotals_f64 tierEcon' tierMap' counts retailAttach =
     foldl (cohort_step_f64 tierEcon' tierMap' counts retailAttach)
       \<lparr>CohortSums.bulkRev = 0, CohortSums.bulkProfit = 0,
        CohortSums.retailRev = 0, CohortSums.retailProfit = 0\<rparr>
       [Small, Medium, Large]"

definition month_body_f64 ::
  "(string \<rightharpoonup> TierEconomics) \<Rightarrow> (Size \<Rightarrow> string option) \<Rightarrow> real \<Rightarrow> real \<Rightarrow> real \<Rightarrow> real
     \<Rightarrow> real \<Rightarrow> real \<Rightarrow> LoopState \<Rightarrow> nat \<Rightarrow> LoopState"
where
  "month_body_f64 tierEcon' tierMap' sF mF lF churn retailAttach newPartners st m =
     (let active =
            (if m > 1 then fadd (fmul (LoopState.totalActive st) (fsub 1 churn)) newPartners
             else LoopState.totalActive st);
          counts = cohortCounts_f64 active sF mF lF;
          acc = cohortTotals_f64 tierEcon' tierMap' counts retailAttach;
          totalRev' = fadd (CohortSums.bulkRev acc) (CohortSums.retailRev acc);
          totalProfit' = fadd (CohortSums.bulkProfit acc) (CohortSums.retailProfit acc);
          cumRev = fadd (LoopState.cumulativeRev st) totalRev';
          cumProfit = fadd (LoopState.cumulativeProfit st) totalProfit'
      in \<lparr>LoopState.totalActive = active,
          LoopState.cumulativeRev = cumRev,
          LoopState.cumulativeProfit = cumProfit,
          LoopState.months = months st @
            [\<lparr>month = m, label = ''M'' @ show_nat m,
              MonthlyResult.totalActive = round2_f64 active,
              small = round2_f64 (counts Small),
              medium = round2_f64 (counts Medium),
              large = round2_f64 (counts Large),
              bulkRevenue = js_round (CohortSums.bulkRev acc),
              retailRevenue = js_round (CohortSums.retailRev acc),
              totalRevenue = js_round totalRev',
              MonthlyResult.bulkProfit = js_round (CohortSums.bulkProfit acc),
              MonthlyResult.retailProfit = js_round (CohortSums.retailProfit acc),
              MonthlyResult.totalProfit = js_round totalProfit',
              marginPct =
                (if totalRev' > 0
                 then fdiv (js_round (fmul (fdiv totalProfit' totalRev') 1000)) 10
                 else 0),
              MonthlyResult.cumulativeRev = js_round cumRev,
              MonthlyResult.cumulativeProfit = js_round cumProfit\<rparr>]\<rparr>)"

definition projectLoop_f64 ::
  "Scenario \<Rightarrow> Tier list \<Rightarrow> BulkProduct list \<Rightarrow> RetailProduct list \<Rightarrow> nat \<Rightarrow> LoopState"
where
  "projectLoop_f64 scenario tiers bulkProducts retailProducts n =
     (let tierEcon' = tierEcon_f64 tiers bulkProducts retailProducts;
          tierMap' = tierMap tiers;
          sF = fdiv (pctSmall scenario) 100;
          mF = fdiv (pctMedium scenario) 100;
          lF = fdiv (pctLarge scenario) 100;
          churn = fdiv (monthlyChurnPct scenario) 100;
          retailAttach = fdiv (retailAttachPct scenario) 100
      in foldl
           (month_body_f64 tierEcon' tierMap' sF mF lF churn retailAttach
              (newPartnersPerMonth scenario))
           \<lparr>LoopState.totalActive = startingPartners scenario,
            LoopState.cumulativeRev = 0, LoopState.cumulativeProfit = 0,
            LoopState.months = []\<rparr>
           [1 ..< Suc n])"

definition projectScenario_f64 ::
  "Scenario \<Rightarrow> Tier list \<Rightarrow> BulkProduct list \<Rightarrow> RetailProduct list \<Rightarrow> MonthlyResult list"
where
  "projectScenario_f64 scenario tiers bulkProducts retailProducts =
     months (projectLoop_f64 scenario tiers bulkProducts retailProducts 12)"

text \<open>
  The cohort counts and the four running sums of the month \<open>m\<close>, as the pass for that
  month computes them from the state it reaches.
\<close>

definition monthCounts_f64 ::
  "Scenario \<Rightarrow> Tier list \<Rightarrow> BulkProduct list \<Rightarrow> RetailProduct list \<Rightarrow> nat \<Rightarrow> Size \<Rightarrow> real"
where
  "monthCounts_f64 scenario tiers bulkProducts retailProducts m =
     cohortCounts_f64
       (LoopState.totalActive (projectLoop_f64 scenario tiers bulkProducts retailProducts m))
       (fdiv (pctSmall scenario) 100) (fdiv (pctMedium scenario) 100)
       (fdiv (pctLarge scenario) 100)"

definition monthTotals_f64 ::
  "Scenario \<Rightarrow> Tier list \<Rightarrow> BulkProduct list \<Rightarrow> RetailProduct list \<Rightarrow> nat \<Rightarrow> CohortSums"
where
  "monthTotals_f64 scenario tiers bulkProducts retailProducts m =
     cohortTotals_f64 (tierEcon_f64 tiers bulkProducts retailProducts) (tierMap tiers)
       (monthCounts_f64 scenario tiers bulkProducts retailProducts m)
       (fdiv (retailAttachPct scenario) 100)"

text \<open>
  The positional reading of the specification, in double precision: going through the
  small, medium and large cohort in this order, the cohort at position \<open>i\<close> adds its term
  \<open>g\<close>, taken at the economics of the \<open>i\<close>-th tier, to the running sum; a position
  without a tier adds nothing.
\<close>

definition positionalSum_f64 ::
  "Tier list \<Rightarrow> BulkProduct list \<Rightarrow> RetailProduct list \<Rightarrow> (Size \<Rightarrow> TierEconomics \<Rightarrow> real)
     \<Rightarrow> real"
where
  "positionalSum_f64 tiers bulkProducts retailProducts g =
     foldl
       (\<lambda>acc sz.
          if sizeIndex sz < length tiers
          then fadd acc
                 (g sz (calcTierEconomics_f64 (tiers ! sizeIndex sz) bulkProducts retailProducts))
          else acc)
       0 [Small, Medium, Large]"

text \<open>The default bulk catalog as doubles: \<open>12.93\<close> denotes the double nearest to it.\<close>

definition DEFAULT_BULK_PRODUCTS_f64 :: "BulkProduct list" where
  "DEFAULT_BULK_PRODUCTS_f64 =
     map (\<lambda>p. p\<lparr>BulkProduct.cogs := fl64 (BulkProduct.cogs p)\<rparr>) DEFAULT_BULK_PRODUCTS"

section \<open>Auxiliary facts\<close>

subsection \<open>Rounding\<close>



lemma js_round_zero [simp]: "js_round 0 = 0"
  unfolding js_round_def by simp

lemma round2_zero [simp]: "round2 0 = 0"
  unfolding round2_def by simp


subsection \<open>Tier economics as sums\<close>

lemma foldl_bulk_step:
  "foldl (bulk_step p) (a, b, rows) xs =
     (a + (\<Sum>x\<leftarrow>xs. bagsNeeded p x * wholesale x),
      b + (\<Sum>x\<leftarrow>xs. bagsNeeded p x * calcBulkMargin x),
      rows @ map (\<lambda>x. \<lparr>BreakdownRow.name = BulkProduct.name x,
                         bags = round2 (bagsNeeded p x),
                         rev = round2 (bagsNeeded p x * wholesale x)\<rparr>) xs)"
  by (induction xs arbitrary: a b rows)
     (simp_all add: bulk_step_def bagsNeeded_def Let_def algebra_simps)

lemma foldl_retail_step:
  "foldl (retail_step u) (a, b) xs =
     (a + (\<Sum>x\<leftarrow>xs. u * wholesalePrice x), b + (\<Sum>x\<leftarrow>xs. u * calcRetailMargin x))"
  by (induction xs arbitrary: a b) (simp_all add: retail_step_def algebra_simps)

lemma calcTierEconomics_eq:
  "calcTierEconomics tier bs rs =
     \<lparr>servingsPerMonth = drinksPerDay tier * tspPerDrink tier * daysPerMonth tier,
      bulkBreakdown =
        map (\<lambda>x. \<lparr>BreakdownRow.name = BulkProduct.name x,
                   bags = round2 (bagsNeeded (servingsPerProduct tier bs) x),
                   rev = round2 (bagsNeeded (servingsPerProduct tier bs) x * wholesale x)\<rparr>)
          (selectedBulk tier bs),
      bulkRev = round2 (unroundedBulkRev tier bs),
      bulkProfit = round2 (unroundedBulkProfit tier bs),
      retailRev = unroundedRetailRev tier rs,
      retailProfit = unroundedRetailProfit tier rs,
      totalRev = round2 (unroundedBulkRev tier bs + unroundedRetailRev tier rs),
      totalProfit = round2 (unroundedBulkProfit tier bs + unroundedRetailProfit tier rs)\<rparr>"
  unfolding calcTierEconomics_def Let_def foldl_bulk_step foldl_retail_step
    unroundedBulkRev_def unroundedBulkProfit_def unroundedRetailRev_def
    unroundedRetailProfit_def servingsPerProduct_def retailUnitsPerProduct_def
  by simp

lemma round2_chk_eq: "round2_chk x = Some (round2 x)"
  by (simp add: round2_chk_def round2_def js_div_def)

lemma bulk_step_chk_eq: "bulk_step_chk p acc b = Some (bulk_step p acc b)"
  by (cases acc) (simp add: bulk_step_chk_def bulk_step_def round2_chk_eq js_div_def Let_def)

lemma foldl_chk_total:
  "(\<And>a x. f a x = Some (g a x)) \<Longrightarrow> foldl_chk f a xs = Some (foldl g a xs)"
  by (induction xs arbitrary: a) simp_all

lemma calcTierEconomics_chk_eq:
  "calcTierEconomics_chk tier bs rs = Some (calcTierEconomics tier bs rs)"
  unfolding calcTierEconomics_chk_def calcTierEconomics_def Let_def
  by (simp add: foldl_chk_total [of _ "bulk_step p" for p, OF bulk_step_chk_eq]
      round2_chk_eq js_div_def split: prod.splits)


subsection \<open>The loop of the projection, pass by pass\<close>

lemma projectLoop_0:
  "projectLoop s ts bs rs 0 =
     \<lparr>LoopState.totalActive = startingPartners s, LoopState.cumulativeRev = 0,
      LoopState.cumulativeProfit = 0, LoopState.months = []\<rparr>"
  by (simp add: projectLoop_def)

lemma projectLoop_Suc:
  "projectLoop s ts bs rs (Suc n) =
     month_body (tierEcon ts bs rs) (tierMap ts) (pctSmall s / 100) (pctMedium s / 100)
       (pctLarge s / 100) (monthlyChurnPct s / 100) (retailAttachPct s / 100)
       (newPartnersPerMonth s) (projectLoop s ts bs rs n) (Suc n)"
  by (simp add: projectLoop_def Let_def)

lemma active_Suc:
  "LoopState.totalActive (projectLoop s ts bs rs (Suc n)) =
     (if 1 \<le> n
      then LoopState.totalActive (projectLoop s ts bs rs n) * (1 - monthlyChurnPct s / 100)
           + newPartnersPerMonth s
      else LoopState.totalActive (projectLoop s ts bs rs n))"
  by (simp add: projectLoop_Suc month_body_def Let_def)


lemma cumulativeProfit_Suc:
  "LoopState.cumulativeProfit (projectLoop s ts bs rs (Suc n)) =
     LoopState.cumulativeProfit (projectLoop s ts bs rs n)
     + (CohortSums.bulkProfit (monthTotals s ts bs rs (Suc n))
        + CohortSums.retailProfit (monthTotals s ts bs rs (Suc n)))"
  unfolding monthTotals_def active_Suc
  by (simp add: projectLoop_Suc month_body_def Let_def)

lemma months_Suc:
  "months (projectLoop s ts bs rs (Suc n)) =
     months (projectLoop s ts bs rs n) @
     [\<lparr>month = Suc n, label = ''M'' @ show_nat (Suc n),
       MonthlyResult.totalActive =
         round2 (LoopState.totalActive (projectLoop s ts bs rs (Suc n))),
       small = round2 (LoopState.totalActive (projectLoop s ts bs rs (Suc n))
                       * (pctSmall s / 100)),
       medium = round2 (LoopState.totalActive (projectLoop s ts bs rs (Suc n))
                        * (pctMedium s / 100)),
       large = round2 (LoopState.totalActive (projectLoop s ts bs rs (Suc n))
                       * (pctLarge s / 100)),
       bulkRevenue = js_round (CohortSums.bulkRev (monthTotals s ts bs rs (Suc n))),
       retailRevenue = js_round (CohortSums.retailRev (monthTotals s ts bs rs (Suc n))),
       totalRevenue = js_round (CohortSums.bulkRev (monthTotals s ts bs rs (Suc n))
                                + CohortSums.retailRev (monthTotals s ts bs rs (Suc n))),
       MonthlyResult.bulkProfit =
         js_round (CohortSums.bulkProfit (monthTotals s ts bs rs (Suc n))),
       MonthlyResult.retailProfit =
         js_round (CohortSums.retailProfit (monthTotals s ts bs rs (Suc n))),
       MonthlyResult.totalProfit =
         js_round (CohortSums.bulkProfit (monthTotals s ts bs rs (Suc n))
                   + CohortSums.retailProfit (monthTotals s ts bs rs (Suc n))),
       marginPct =
         (if CohortSums.bulkRev (monthTotals s ts bs rs (Suc n))
             + CohortSums.retailRev (monthTotals s ts bs rs (Suc n)) > 0
          then js_round
                 ((CohortSums.bulkProfit (monthTotals s ts bs rs (Suc n))
                   + CohortSums.retailProfit (monthTotals s ts bs rs (Suc n)))
                  / (CohortSums.bulkRev (monthTotals s ts bs rs (Suc n))
                     + CohortSums.retailRev (monthTotals s ts bs rs (Suc n)))
                  * 1000) / 10
          else 0),
       MonthlyResult.cumulativeRev =
         js_round (LoopState.cumulativeRev (projectLoop s ts bs rs (Suc n))),
       MonthlyResult.cumulativeProfit =
         js_round (LoopState.cumulativeProfit (projectLoop s ts bs rs (Suc n)))\<rparr>]"
  unfolding monthTotals_def active_Suc
  by (simp add: projectLoop_Suc month_body_def Let_def cohortCounts_def)

lemma length_months: "length (months (projectLoop s ts bs rs n)) = n"
  by (induction n) (simp_all add: projectLoop_0 months_Suc)

lemma months_nth_stable:
  "k < n \<Longrightarrow> n \<le> N \<Longrightarrow>
     months (projectLoop s ts bs rs N) ! k = months (projectLoop s ts bs rs n) ! k"
proof (induction N)
  case 0
  then show ?case by simp
next
  case (Suc N)
  show ?case
  proof (cases "n = Suc N")
    case True
    then show ?thesis by simp
  next
    case False
    with Suc.prems have "n \<le> N" by simp
    with Suc have "months (projectLoop s ts bs rs N) ! k = months (projectLoop s ts bs rs n) ! k"
      by simp
    moreover from \<open>n \<le> N\<close> Suc.prems have "k < length (months (projectLoop s ts bs rs N))"
      by (simp add: length_months)
    ultimately show ?thesis
      by (simp add: months_Suc [of s ts bs rs N] nth_append)
  qed
qed

lemma projectScenario_nth:
  "k < 12 \<Longrightarrow>
     projectScenario s ts bs rs ! k = last (months (projectLoop s ts bs rs (Suc k)))"
proof -
  assume k: "k < 12"
  have "months (projectLoop s ts bs rs 12) ! k = months (projectLoop s ts bs rs (Suc k)) ! k"
    using k by (intro months_nth_stable) simp_all
  also have "\<dots> = last (months (projectLoop s ts bs rs (Suc k)))"
    by (simp add: months_Suc [of s ts bs rs k] nth_append length_months)
  finally show ?thesis by (simp add: projectScenario_def)
qed



subsection \<open>Roundings of sums\<close>






subsection \<open>The records of the months\<close>


lemma cumulativeProfit_sum:
  "LoopState.cumulativeProfit (projectLoop s ts bs rs n) =
     (\<Sum>k<n. CohortSums.bulkProfit (monthTotals s ts bs rs (Suc k))
             + CohortSums.retailProfit (monthTotals s ts bs rs (Suc k)))"
  by (induction n) (simp_all add: projectLoop_0 cumulativeProfit_Suc)


lemma month_fields:
  assumes "k < 12"
  shows "MonthlyResult.totalActive (projectScenario s ts bs rs ! k) =
           round2 (LoopState.totalActive (projectLoop s ts bs rs (Suc k)))"
    and "small (projectScenario s ts bs rs ! k) =
           round2 (LoopState.totalActive (projectLoop s ts bs rs (Suc k)) * (pctSmall s / 100))"
    and "medium (projectScenario s ts bs rs ! k) =
           round2 (LoopState.totalActive (projectLoop s ts bs rs (Suc k)) * (pctMedium s / 100))"
    and "large (projectScenario s ts bs rs ! k) =
           round2 (LoopState.totalActive (projectLoop s ts bs rs (Suc k)) * (pctLarge s / 100))"
    and "bulkRevenue (projectScenario s ts bs rs ! k) =
           js_round (CohortSums.bulkRev (monthTotals s ts bs rs (Suc k)))"
    and "retailRevenue (projectScenario s ts bs rs ! k) =
           js_round (CohortSums.retailRev (monthTotals s ts bs rs (Suc k)))"
    and "totalRevenue (projectScenario s ts bs rs ! k) =
           js_round (CohortSums.bulkRev (monthTotals s ts bs rs (Suc k))
                     + CohortSums.retailRev (monthTotals s ts bs rs (Suc k)))"
    and "MonthlyResult.bulkProfit (projectScenario s ts bs rs ! k) =
           js_round (CohortSums.bulkProfit (monthTotals s ts bs rs (Suc k)))"
    and "MonthlyResult.retailProfit (projectScenario s ts bs rs ! k) =
           js_round (CohortSums.retailProfit (monthTotals s ts bs rs (Suc k)))"
    and "MonthlyResult.totalProfit (projectScenario s ts bs rs ! k) =
           js_round (CohortSums.bulkProfit (monthTotals s ts bs rs (Suc k))
                     + CohortSums.retailProfit (monthTotals s ts bs rs (Suc k)))"
    and "MonthlyResult.cumulativeRev (projectScenario s ts bs rs ! k) =
           js_round (LoopState.cumulativeRev (projectLoop s ts bs rs (Suc k)))"
    and "MonthlyResult.cumulativeProfit (projectScenario s ts bs rs ! k) =
           js_round (LoopState.cumulativeProfit (projectLoop s ts bs rs (Suc k)))"
  using assms by (simp_all add: projectScenario_nth months_Suc [of s ts bs rs k])

subsection \<open>Cohorts and tiers\<close>

lemma tierEcon_snoc:
  "tierEcon (ts @ [t]) bs rs = (tierEcon ts bs rs)(Tier.id t \<mapsto> calcTierEconomics t bs rs)"
  by (simp add: tierEcon_def)

lemma tierEcon_distinct:
  "distinct (map Tier.id ts) \<Longrightarrow> i < length ts \<Longrightarrow>
     tierEcon ts bs rs (Tier.id (ts ! i)) = Some (calcTierEconomics (ts ! i) bs rs)"
proof (induction ts rule: rev_induct)
  case Nil
  then show ?case by simp
next
  case (snoc t ts)
  show ?case
  proof (cases "i < length ts")
    case True
    then have "Tier.id (ts ! i) \<in> Tier.id ` set ts" by simp
    moreover from snoc.prems(1) have "Tier.id t \<notin> Tier.id ` set ts" by simp
    ultimately have "Tier.id (ts ! i) \<noteq> Tier.id t" by metis
    with True snoc show ?thesis by (simp add: tierEcon_snoc nth_append)
  next
    case False
    with snoc.prems(2) have "i = length ts" by simp
    then show ?thesis by (simp add: tierEcon_snoc)
  qed
qed

lemma tierMap_present:
  "sizeIndex sz < length ts \<Longrightarrow> tierMap ts sz = Some (Tier.id (ts ! sizeIndex sz))"
  by (simp add: tierMap_def nth_opt_def)

lemma tierMap_missing: "length ts \<le> sizeIndex sz \<Longrightarrow> tierMap ts sz = None"
  by (simp add: tierMap_def nth_opt_def)

lemma cohort_step_missing:
  "length ts \<le> sizeIndex sz \<Longrightarrow> cohort_step te (tierMap ts) c ra acc sz = acc"
  by (simp add: cohort_step_def tierMap_missing)

lemma cohort_step_positional:
  assumes "distinct (map Tier.id ts)" and "[] \<notin> set (map Tier.id ts)"
  shows "cohort_step (tierEcon ts bs rs) (tierMap ts) c ra acc sz =
           \<lparr>CohortSums.bulkRev = CohortSums.bulkRev acc
              + c sz * positionalShare ts bs rs TierEconomics.bulkRev (sizeIndex sz),
            CohortSums.bulkProfit = CohortSums.bulkProfit acc
              + c sz * positionalShare ts bs rs TierEconomics.bulkProfit (sizeIndex sz),
            CohortSums.retailRev = CohortSums.retailRev acc
              + c sz * positionalShare ts bs rs TierEconomics.retailRev (sizeIndex sz) * ra,
            CohortSums.retailProfit = CohortSums.retailProfit acc
              + c sz * positionalShare ts bs rs TierEconomics.retailProfit (sizeIndex sz) * ra\<rparr>"
proof (cases "sizeIndex sz < length ts")
  case True
  then have "Tier.id (ts ! sizeIndex sz) \<in> Tier.id ` set ts" by simp
  with assms(2) have "Tier.id (ts ! sizeIndex sz) \<noteq> []" by (metis set_map)
  with True assms(1) show ?thesis
    by (simp add: cohort_step_def tierMap_present tierEcon_distinct positionalShare_def)
next
  case False
  then show ?thesis
    by (simp add: cohort_step_missing positionalShare_def)
qed

lemma cohortTotals_positional:
  assumes "distinct (map Tier.id ts)" and "[] \<notin> set (map Tier.id ts)"
  shows "cohortTotals (tierEcon ts bs rs) (tierMap ts) c ra =
           \<lparr>CohortSums.bulkRev = positionalSum ts bs rs TierEconomics.bulkRev c,
            CohortSums.bulkProfit = positionalSum ts bs rs TierEconomics.bulkProfit c,
            CohortSums.retailRev = positionalSum ts bs rs TierEconomics.retailRev c * ra,
            CohortSums.retailProfit = positionalSum ts bs rs TierEconomics.retailProfit c * ra\<rparr>"
  by (simp add: cohortTotals_def cohort_step_positional [OF assms] positionalSum_def
      algebra_simps)

lemma default_econ_small:
  "calcTierEconomics (DEFAULT_TIERS ! 0) DEFAULT_BULK_PRODUCTS DEFAULT_RETAIL_PRODUCTS =
     \<lparr>servingsPerMonth = 300,
      bulkBreakdown = [\<lparr>BreakdownRow.name = ''Everyday Cafe Bag 1lb'', bags = 167 / 100,
                        rev = 13333 / 100\<rparr>],
      bulkRev = 13333 / 100, bulkProfit = 11178 / 100, retailRev = 120, retailProfit = 80,
      totalRev = 25333 / 100, totalProfit = 19178 / 100\<rparr>"
  by (simp add: calcTierEconomics_eq DEFAULT_TIERS_def DEFAULT_BULK_PRODUCTS_def
      DEFAULT_RETAIL_PRODUCTS_def selectedBulk_def selectedRetail_def includes_or_empty_def
      servingsPerProduct_def retailUnitsPerProduct_def bagsNeeded_def unroundedBulkRev_def
      unroundedBulkProfit_def unroundedRetailRev_def unroundedRetailProfit_def
      calcBulkMargin_def calcRetailMargin_def round2_def js_round_def)

lemma default_econ_medium:
  "calcTierEconomics (DEFAULT_TIERS ! 1) DEFAULT_BULK_PRODUCTS DEFAULT_RETAIL_PRODUCTS =
     \<lparr>servingsPerMonth = 1200,
      bulkBreakdown = [\<lparr>BreakdownRow.name = ''Everyday Cafe Bag 5lb'', bags = 133 / 100,
                        rev = 400\<rparr>],
      bulkRev = 400, bulkProfit = 320, retailRev = 180, retailProfit = 120,
      totalRev = 580, totalProfit = 440\<rparr>"
  by (simp add: calcTierEconomics_eq DEFAULT_TIERS_def DEFAULT_BULK_PRODUCTS_def
      DEFAULT_RETAIL_PRODUCTS_def selectedBulk_def selectedRetail_def includes_or_empty_def
      servingsPerProduct_def retailUnitsPerProduct_def bagsNeeded_def unroundedBulkRev_def
      unroundedBulkProfit_def unroundedRetailRev_def unroundedRetailProfit_def
      calcBulkMargin_def calcRetailMargin_def round2_def js_round_def)

lemma default_econ_large:
  "calcTierEconomics (DEFAULT_TIERS ! 2) DEFAULT_BULK_PRODUCTS DEFAULT_RETAIL_PRODUCTS =
     \<lparr>servingsPerMonth = 1800,
      bulkBreakdown = [\<lparr>BreakdownRow.name = ''Everyday Cafe Bag 5lb'', bags = 1, rev = 300\<rparr>,
                       \<lparr>BreakdownRow.name = ''Dusk Cafe Bag 5lb'', bags = 841 / 100,
                        rev = 90841 / 100\<rparr>],
      bulkRev = 120841 / 100, bulkProfit = 70262 / 100, retailRev = 300, retailProfit = 150,
      totalRev = 150841 / 100, totalProfit = 85262 / 100\<rparr>"
  by (simp add: calcTierEconomics_eq DEFAULT_TIERS_def DEFAULT_BULK_PRODUCTS_def
      DEFAULT_RETAIL_PRODUCTS_def selectedBulk_def selectedRetail_def includes_or_empty_def
      servingsPerProduct_def retailUnitsPerProduct_def bagsNeeded_def unroundedBulkRev_def
      unroundedBulkProfit_def unroundedRetailRev_def unroundedRetailProfit_def
      calcBulkMargin_def calcRetailMargin_def round2_def js_round_def)

section \<open>Tier economics: the claims\<close>

text \<open>
  Claim C7. When no catalog entry is selected by the bulk ids of a tier (none are given,
  or every id is dangling and so dropped by the filter), \<open>calcTierEconomics\<close> returns
  \<open>bulkRev = 0\<close>, \<open>bulkProfit = 0\<close>, an empty breakdown, and \<open>servingsPerMonth\<close> is still
  \<open>drinksPerDay * tspPerDrink * daysPerMonth\<close>.
\<close>

theorem calcTierEconomics_no_bulk:
  assumes "selectedBulk tier bs = []"
  shows "TierEconomics.bulkRev (calcTierEconomics tier bs rs) = 0
         \<and> TierEconomics.bulkProfit (calcTierEconomics tier bs rs) = 0
         \<and> bulkBreakdown (calcTierEconomics tier bs rs) = []
         \<and> servingsPerMonth (calcTierEconomics tier bs rs)
             = drinksPerDay tier * tspPerDrink tier * daysPerMonth tier"
  using assms
  by (simp add: calcTierEconomics_eq unroundedBulkRev_def unroundedBulkProfit_def)

text \<open>The small cafe with two dangling bulk ids, against the default catalogs.\<close>

theorem calcTierEconomics_no_bulk_witness:
  "selectedBulk DANGLING_TIER DEFAULT_BULK_PRODUCTS = []
   \<and> TierEconomics.bulkRev
         (calcTierEconomics DANGLING_TIER DEFAULT_BULK_PRODUCTS DEFAULT_RETAIL_PRODUCTS) = 0
   \<and> TierEconomics.bulkProfit
         (calcTierEconomics DANGLING_TIER DEFAULT_BULK_PRODUCTS DEFAULT_RETAIL_PRODUCTS) = 0
   \<and> bulkBreakdown
         (calcTierEconomics DANGLING_TIER DEFAULT_BULK_PRODUCTS DEFAULT_RETAIL_PRODUCTS) = []
   \<and> servingsPerMonth
         (calcTierEconomics DANGLING_TIER DEFAULT_BULK_PRODUCTS DEFAULT_RETAIL_PRODUCTS) = 300"
proof -
  have sel: "selectedBulk DANGLING_TIER DEFAULT_BULK_PRODUCTS = []"
    by (simp add: selectedBulk_def DANGLING_TIER_def DEFAULT_TIERS_def
        DEFAULT_BULK_PRODUCTS_def includes_or_empty_def)
  show ?thesis
    using sel calcTierEconomics_no_bulk [OF sel, of DEFAULT_RETAIL_PRODUCTS]
    by (simp add: DANGLING_TIER_def DEFAULT_TIERS_def)
qed

text \<open>
  Claim C9. No division of \<open>calcTierEconomics\<close> meets a zero divisor: the version with
  checked divisions always returns, and returns the same record. The guard on
  \<open>bulk.servings\<close> is strict, so a selected bulk product whose \<open>servings\<close> is zero or
  negative gets 0 bags (and so 0 revenue) in the row of the breakdown at its position.
\<close>

theorem calcTierEconomics_divisions_guarded:
  "calcTierEconomics_chk tier bs rs = Some (calcTierEconomics tier bs rs)
   \<and> length (bulkBreakdown (calcTierEconomics tier bs rs)) = length (selectedBulk tier bs)
   \<and> (\<forall>i < length (selectedBulk tier bs).
         servings (selectedBulk tier bs ! i) \<le> 0 \<longrightarrow>
           bags (bulkBreakdown (calcTierEconomics tier bs rs) ! i) = 0
           \<and> rev (bulkBreakdown (calcTierEconomics tier bs rs) ! i) = 0)"
  by (simp add: calcTierEconomics_chk_eq calcTierEconomics_eq bagsNeeded_def)

text \<open>The small cafe against a catalog whose only bag has \<open>servings = -180\<close>.\<close>

theorem calcTierEconomics_divisions_guarded_witness:
  "selectedBulk (DEFAULT_TIERS ! 0) [NEGATIVE_BAG] = [NEGATIVE_BAG]
   \<and> servings NEGATIVE_BAG = - 180
   \<and> calcTierEconomics_chk (DEFAULT_TIERS ! 0) [NEGATIVE_BAG] DEFAULT_RETAIL_PRODUCTS
       = Some (calcTierEconomics (DEFAULT_TIERS ! 0) [NEGATIVE_BAG] DEFAULT_RETAIL_PRODUCTS)
   \<and> bags (bulkBreakdown
         (calcTierEconomics (DEFAULT_TIERS ! 0) [NEGATIVE_BAG] DEFAULT_RETAIL_PRODUCTS) ! 0) = 0
   \<and> rev (bulkBreakdown
         (calcTierEconomics (DEFAULT_TIERS ! 0) [NEGATIVE_BAG] DEFAULT_RETAIL_PRODUCTS) ! 0) = 0"
proof -
  have sel: "selectedBulk (DEFAULT_TIERS ! 0) [NEGATIVE_BAG] = [NEGATIVE_BAG]"
    by (simp add: selectedBulk_def DEFAULT_TIERS_def NEGATIVE_BAG_def includes_or_empty_def)
  have neg: "servings NEGATIVE_BAG = - 180"
    by (simp add: NEGATIVE_BAG_def)
  show ?thesis
    using sel neg
      calcTierEconomics_divisions_guarded
        [of "DEFAULT_TIERS ! 0" "[NEGATIVE_BAG]" DEFAULT_RETAIL_PRODUCTS]
    by simp
qed

section \<open>Scenario projection: the claims\<close>

lemma active_1:
  "LoopState.totalActive (projectLoop s ts bs rs (Suc 0)) = startingPartners s"
  by (simp add: active_Suc projectLoop_0)

lemma active_2:
  "LoopState.totalActive (projectLoop s ts bs rs (Suc (Suc 0))) =
     startingPartners s * (1 - monthlyChurnPct s / 100) + newPartnersPerMonth s"
  by (simp add: active_Suc [of s ts bs rs "Suc 0"] active_1)

lemma active_3:
  "LoopState.totalActive (projectLoop s ts bs rs (Suc (Suc (Suc 0)))) =
     (startingPartners s * (1 - monthlyChurnPct s / 100) + newPartnersPerMonth s)
       * (1 - monthlyChurnPct s / 100) + newPartnersPerMonth s"
  by (simp add: active_Suc [of s ts bs rs "Suc (Suc 0)"] active_2)

lemma base_case_active:
  assumes "startingPartners s = 1" and "newPartnersPerMonth s = 2" and "monthlyChurnPct s = 2"
  shows "LoopState.totalActive (projectLoop s ts bs rs 2) = 298 / 100"
    and "LoopState.totalActive (projectLoop s ts bs rs 3) = 49204 / 10000"
  using assms by (simp_all add: eval_nat_numeral active_2 active_3)

lemma base_case_reported:
  assumes "startingPartners s = 1" and "newPartnersPerMonth s = 2" and "monthlyChurnPct s = 2"
  shows "MonthlyResult.totalActive (projectScenario s ts bs rs ! 1) = 298 / 100"
    and "MonthlyResult.totalActive (projectScenario s ts bs rs ! 2) = 492 / 100"
proof -
  have "MonthlyResult.totalActive (projectScenario s ts bs rs ! 1) =
          round2 (LoopState.totalActive (projectLoop s ts bs rs 2))"
    using month_fields(1) [of 1 s ts bs rs] by (simp add: eval_nat_numeral)
  then show "MonthlyResult.totalActive (projectScenario s ts bs rs ! 1) = 298 / 100"
    by (simp add: base_case_active [OF assms] round2_def js_round_def)
  have "MonthlyResult.totalActive (projectScenario s ts bs rs ! 2) =
          round2 (LoopState.totalActive (projectLoop s ts bs rs 3))"
    using month_fields(1) [of 2 s ts bs rs] by (simp add: eval_nat_numeral)
  then show "MonthlyResult.totalActive (projectScenario s ts bs rs ! 2) = 492 / 100"
    by (simp add: base_case_active [OF assms] round2_def js_round_def)
qed

text \<open>
  Claim C8 says that for \<open>startingPartners = 1\<close>, \<open>newPartnersPerMonth = 2\<close> and
  \<open>monthlyChurnPct = 2\<close> the projection reports \<open>totalActive = 2.98\<close> for month 2 and
  \<open>totalActive = 4.9204\<close> for month 3. The reported field is rounded to two decimal
  places: for the Base Case with the default tiers and catalogs the record of month 3
  carries 4.92, not 4.9204.
\<close>

theorem base_case_month3_reported_counterexample:
  "MonthlyResult.totalActive
     (projectScenario BASE_CASE DEFAULT_TIERS DEFAULT_BULK_PRODUCTS DEFAULT_RETAIL_PRODUCTS ! 2)
     = 492 / 100
   \<and> MonthlyResult.totalActive
       (projectScenario BASE_CASE DEFAULT_TIERS DEFAULT_BULK_PRODUCTS DEFAULT_RETAIL_PRODUCTS ! 2)
     \<noteq> 49204 / 10000"
proof -
  have "MonthlyResult.totalActive
     (projectScenario BASE_CASE DEFAULT_TIERS DEFAULT_BULK_PRODUCTS DEFAULT_RETAIL_PRODUCTS ! 2)
     = 492 / 100"
    by (rule base_case_reported) (simp_all add: BASE_CASE_def)
  then show ?thesis by simp
qed

text \<open>
  Claim C8, amended. For \<open>startingPartners = 1\<close>, \<open>newPartnersPerMonth = 2\<close> and
  \<open>monthlyChurnPct = 2\<close> the variable \<open>totalActive\<close> is \<open>1 * 0.98 + 2 = 2.98\<close> after the
  pass for month 2 and \<open>2.98 * 0.98 + 2 = 4.9204\<close> after the pass for month 3; the
  records of the two months report it rounded to two decimal places, as 2.98 and 4.92.
\<close>

theorem base_case_partner_counts:
  assumes "startingPartners s = 1" and "newPartnersPerMonth s = 2" and "monthlyChurnPct s = 2"
  shows "LoopState.totalActive (projectLoop s ts bs rs 2) = 298 / 100
         \<and> LoopState.totalActive (projectLoop s ts bs rs 3) = 49204 / 10000
         \<and> MonthlyResult.totalActive (projectScenario s ts bs rs ! 1) = 298 / 100
         \<and> MonthlyResult.totalActive (projectScenario s ts bs rs ! 2) = 492 / 100"
  using base_case_active [OF assms] base_case_reported [OF assms] by simp

text \<open>The Base Case with the default tiers and catalogs.\<close>

theorem base_case_partner_counts_witness:
  "startingPartners BASE_CASE = 1 \<and> newPartnersPerMonth BASE_CASE = 2
   \<and> monthlyChurnPct BASE_CASE = 2
   \<and> LoopState.totalActive
        (projectLoop BASE_CASE DEFAULT_TIERS DEFAULT_BULK_PRODUCTS DEFAULT_RETAIL_PRODUCTS 3)
       = 49204 / 10000
   \<and> MonthlyResult.totalActive
        (projectScenario BASE_CASE DEFAULT_TIERS DEFAULT_BULK_PRODUCTS DEFAULT_RETAIL_PRODUCTS ! 1)
       = 298 / 100
   \<and> MonthlyResult.totalActive
        (projectScenario BASE_CASE DEFAULT_TIERS DEFAULT_BULK_PRODUCTS DEFAULT_RETAIL_PRODUCTS ! 2)
       = 492 / 100"
proof -
  have h: "startingPartners BASE_CASE = 1" "newPartnersPerMonth BASE_CASE = 2"
    "monthlyChurnPct BASE_CASE = 2"
    by (simp_all add: BASE_CASE_def)
  show ?thesis
    using h base_case_partner_counts
      [OF h, of DEFAULT_TIERS DEFAULT_BULK_PRODUCTS DEFAULT_RETAIL_PRODUCTS]
    by simp
qed

subsection \<open>The default tiers and catalogs\<close>

lemma default_ids:
  "distinct (map Tier.id DEFAULT_TIERS)" "[] \<notin> set (map Tier.id DEFAULT_TIERS)"
  by (simp_all add: DEFAULT_TIERS_def)

lemma default_shares:
  "positionalShare DEFAULT_TIERS DEFAULT_BULK_PRODUCTS DEFAULT_RETAIL_PRODUCTS
     TierEconomics.bulkRev 0 = 13333 / 100"
  "positionalShare DEFAULT_TIERS DEFAULT_BULK_PRODUCTS DEFAULT_RETAIL_PRODUCTS
     TierEconomics.bulkRev (Suc 0) = 400"
  "positionalShare DEFAULT_TIERS DEFAULT_BULK_PRODUCTS DEFAULT_RETAIL_PRODUCTS
     TierEconomics.bulkRev 2 = 120841 / 100"
  "positionalShare DEFAULT_TIERS DEFAULT_BULK_PRODUCTS DEFAULT_RETAIL_PRODUCTS
     TierEconomics.bulkProfit 0 = 11178 / 100"
  "positionalShare DEFAULT_TIERS DEFAULT_BULK_PRODUCTS DEFAULT_RETAIL_PRODUCTS
     TierEconomics.bulkProfit (Suc 0) = 320"
  "positionalShare DEFAULT_TIERS DEFAULT_BULK_PRODUCTS DEFAULT_RETAIL_PRODUCTS
     TierEconomics.bulkProfit 2 = 70262 / 100"
  "positionalShare DEFAULT_TIERS DEFAULT_BULK_PRODUCTS DEFAULT_RETAIL_PRODUCTS
     TierEconomics.retailRev 0 = 120"
  "positionalShare DEFAULT_TIERS DEFAULT_BULK_PRODUCTS DEFAULT_RETAIL_PRODUCTS
     TierEconomics.retailRev (Suc 0) = 180"
  "positionalShare DEFAULT_TIERS DEFAULT_BULK_PRODUCTS DEFAULT_RETAIL_PRODUCTS
     TierEconomics.retailRev 2 = 300"
  "positionalShare DEFAULT_TIERS DEFAULT_BULK_PRODUCTS DEFAULT_RETAIL_PRODUCTS
     TierEconomics.retailProfit 0 = 80"
  "positionalShare DEFAULT_TIERS DEFAULT_BULK_PRODUCTS DEFAULT_RETAIL_PRODUCTS
     TierEconomics.retailProfit (Suc 0) = 120"
  "positionalShare DEFAULT_TIERS DEFAULT_BULK_PRODUCTS DEFAULT_RETAIL_PRODUCTS
     TierEconomics.retailProfit 2 = 150"
  using default_econ_small default_econ_medium default_econ_large
  by (simp_all add: positionalShare_def DEFAULT_TIERS_def)

lemma default_monthTotals:
  "monthTotals s DEFAULT_TIERS DEFAULT_BULK_PRODUCTS DEFAULT_RETAIL_PRODUCTS m =
     (let a = LoopState.totalActive
                (projectLoop s DEFAULT_TIERS DEFAULT_BULK_PRODUCTS DEFAULT_RETAIL_PRODUCTS m)
      in \<lparr>CohortSums.bulkRev =
            a * (pctSmall s / 100) * (13333 / 100) + a * (pctMedium s / 100) * 400
            + a * (pctLarge s / 100) * (120841 / 100),
          CohortSums.bulkProfit =
            a * (pctSmall s / 100) * (11178 / 100) + a * (pctMedium s / 100) * 320
            + a * (pctLarge s / 100) * (70262 / 100),
          CohortSums.retailRev =
            (a * (pctSmall s / 100) * 120 + a * (pctMedium s / 100) * 180
             + a * (pctLarge s / 100) * 300) * (retailAttachPct s / 100),
          CohortSums.retailProfit =
            (a * (pctSmall s / 100) * 80 + a * (pctMedium s / 100) * 120
             + a * (pctLarge s / 100) * 150) * (retailAttachPct s / 100)\<rparr>)"
  unfolding monthTotals_def Let_def cohortTotals_positional [OF default_ids]
  by (simp add: positionalSum_def default_shares cohortCounts_def)

subsection \<open>The Base Case over the twelve months\<close>




lemma base_fields:
  "startingPartners BASE_CASE = 1" "newPartnersPerMonth BASE_CASE = 2"
  "pctSmall BASE_CASE = 50" "pctMedium BASE_CASE = 35" "pctLarge BASE_CASE = 15"
  "monthlyChurnPct BASE_CASE = 2" "retailAttachPct BASE_CASE = 50"
  by (simp_all add: BASE_CASE_def)








section \<open>Double precision: auxiliary facts\<close>

subsection \<open>Powers of two and the binary exponent\<close>

lemma pow2_powi: "pow2 e = 2 powi e"
  by (simp add: pow2_def power_int_def inverse_eq_divide power_one_over)

lemma pow2_pos [simp]: "0 < pow2 e"
  by (simp add: pow2_powi)

lemma pow2_nonzero [simp]: "pow2 e \<noteq> 0"
  by (metis pow2_pos less_irrefl)

lemma pow2_nonneg [simp]: "0 \<le> pow2 e"
  by (metis pow2_pos less_imp_le)

lemma pow2_abs [simp]: "\<bar>pow2 e\<bar> = pow2 e"
  by (metis pow2_pos abs_of_pos)

lemma pow2_53: "pow2 53 = 2 ^ 53"
  by (simp add: pow2_def)

lemma pow2_add: "pow2 (a + b) = pow2 a * pow2 b"
  by (simp add: pow2_powi power_int_add)

lemma pow2_Suc: "pow2 (e + 1) = 2 * pow2 e"
proof -
  have "pow2 1 = 2" by (simp add: pow2_def)
  then show ?thesis by (simp add: pow2_add)
qed

lemma pow2_mono: "a \<le> b \<Longrightarrow> pow2 a \<le> pow2 b"
  by (simp add: pow2_powi power_int_increasing)

lemma pow2_less_cancel: "pow2 a < pow2 b \<Longrightarrow> a < b"
  using pow2_mono [of b a] by (cases "a < b") simp_all

lemma pow2_nat: "pow2 (int n) = 2 ^ n"
  by (simp add: pow2_def)

lemma pow2_one_minus: "1 \<le> k \<Longrightarrow> pow2 (1 - k) = 1 / 2 ^ nat (k - 1)"
proof (cases "k = 1")
  case True
  then show ?thesis by (simp add: pow2_def)
next
  case False
  assume "1 \<le> k"
  with False have "\<not> 0 \<le> 1 - k" and "- (1 - k) = k - 1" by simp_all
  then show ?thesis by (simp only: pow2_def if_False)
qed

lemma expo_bounds:
  assumes "x \<noteq> 0"
  shows "pow2 (expo x) \<le> \<bar>x\<bar>" and "\<bar>x\<bar> < pow2 (expo x + 1)"
proof -
  show "pow2 (expo x) \<le> \<bar>x\<bar>"
  proof (cases "1 \<le> \<bar>x\<bar>")
    case True
    then have n: "0 < \<lfloor>\<bar>x\<bar>\<rfloor>" by linarith
    then have b: "1 \<le> bitlen \<lfloor>\<bar>x\<bar>\<rfloor>" by (simp add: bitlen_alt_def)
    from bitlen_bounds [OF n] have "2 ^ nat (bitlen \<lfloor>\<bar>x\<bar>\<rfloor> - 1) \<le> \<lfloor>\<bar>x\<bar>\<rfloor>" by simp
    then have "real_of_int (2 ^ nat (bitlen \<lfloor>\<bar>x\<bar>\<rfloor> - 1)) \<le> real_of_int \<lfloor>\<bar>x\<bar>\<rfloor>"
      by (simp only: of_int_le_iff)
    also have "\<dots> \<le> \<bar>x\<bar>" by simp
    finally have "2 ^ nat (bitlen \<lfloor>\<bar>x\<bar>\<rfloor> - 1) \<le> \<bar>x\<bar>" by simp
    then show ?thesis using True b by (simp add: expo_def pow2_def)
  next
    case False
    let ?y = "1 / \<bar>x\<bar>"
    let ?k = "bitlen (\<lceil>?y\<rceil> - 1)"
    from False assms have y: "1 < ?y" by simp
    then have c: "0 < \<lceil>?y\<rceil> - 1" by linarith
    from bitlen_bounds [OF c] have "\<lceil>?y\<rceil> - 1 < 2 ^ nat ?k" by simp
    then have "\<lceil>?y\<rceil> \<le> 2 ^ nat ?k" by simp
    then have "real_of_int \<lceil>?y\<rceil> \<le> real_of_int (2 ^ nat ?k)" by (simp only: of_int_le_iff)
    moreover have "?y \<le> real_of_int \<lceil>?y\<rceil>" by simp
    ultimately have "?y \<le> real_of_int (2 ^ nat ?k)" by linarith
    then have "?y \<le> 2 ^ nat ?k" by simp
    then have "1 / 2 ^ nat ?k \<le> \<bar>x\<bar>"
      using assms by (simp add: field_simps)
    moreover have "0 \<le> ?k" by (rule bitlen_nonneg)
    moreover from c have "1 \<le> ?k" by (simp add: bitlen_alt_def)
    ultimately show ?thesis using False by (simp add: expo_def pow2_def)
  qed
  show "\<bar>x\<bar> < pow2 (expo x + 1)"
  proof (cases "1 \<le> \<bar>x\<bar>")
    case True
    then have n: "0 < \<lfloor>\<bar>x\<bar>\<rfloor>" by linarith
    then have b: "1 \<le> bitlen \<lfloor>\<bar>x\<bar>\<rfloor>" by (simp add: bitlen_alt_def)
    from bitlen_bounds [OF n] have "\<lfloor>\<bar>x\<bar>\<rfloor> < 2 ^ nat (bitlen \<lfloor>\<bar>x\<bar>\<rfloor>)" by simp
    then have "\<lfloor>\<bar>x\<bar>\<rfloor> + 1 \<le> 2 ^ nat (bitlen \<lfloor>\<bar>x\<bar>\<rfloor>)" by simp
    then have "real_of_int (\<lfloor>\<bar>x\<bar>\<rfloor> + 1) \<le> real_of_int (2 ^ nat (bitlen \<lfloor>\<bar>x\<bar>\<rfloor>))"
      by (simp only: of_int_le_iff)
    moreover have "\<bar>x\<bar> < real_of_int (\<lfloor>\<bar>x\<bar>\<rfloor> + 1)" by linarith
    ultimately have "\<bar>x\<bar> < real_of_int (2 ^ nat (bitlen \<lfloor>\<bar>x\<bar>\<rfloor>))" by linarith
    then have "\<bar>x\<bar> < 2 ^ nat (bitlen \<lfloor>\<bar>x\<bar>\<rfloor>)" by simp
    then show ?thesis using True b by (simp add: expo_def pow2_def)
  next
    case False
    let ?y = "1 / \<bar>x\<bar>"
    let ?k = "bitlen (\<lceil>?y\<rceil> - 1)"
    from False assms have y: "1 < ?y" by simp
    then have c: "0 < \<lceil>?y\<rceil> - 1" by linarith
    from c have k1: "1 \<le> ?k" by (simp add: bitlen_alt_def)
    from bitlen_bounds [OF c] have "2 ^ nat (?k - 1) \<le> \<lceil>?y\<rceil> - 1" by simp
    then have "real_of_int (2 ^ nat (?k - 1)) \<le> real_of_int (\<lceil>?y\<rceil> - 1)"
      by (simp only: of_int_le_iff)
    moreover have "real_of_int (\<lceil>?y\<rceil> - 1) < ?y" by linarith
    ultimately have "real_of_int (2 ^ nat (?k - 1)) < ?y" by linarith
    then have "2 ^ nat (?k - 1) < ?y" by simp
    then have lt: "\<bar>x\<bar> < 1 / 2 ^ nat (?k - 1)"
      using assms by (simp add: field_simps)
    have "expo x + 1 = 1 - ?k" using \<open>\<not> 1 \<le> \<bar>x\<bar>\<close> by (simp add: expo_def)
    with lt k1 show ?thesis by (simp only: pow2_one_minus)
  qed
qed

lemma expo_unique:
  assumes "pow2 e \<le> \<bar>x\<bar>" and "\<bar>x\<bar> < pow2 (e + 1)"
  shows "expo x = e"
proof -
  have nz: "x \<noteq> 0"
  proof
    assume "x = 0"
    with assms(1) pow2_pos [of e] show False by simp
  qed
  from expo_bounds [OF nz] assms have "pow2 (expo x) < pow2 (e + 1)" "pow2 e < pow2 (expo x + 1)"
    by simp_all
  then have "expo x < e + 1" "e < expo x + 1" by (auto dest: pow2_less_cancel)
  then show ?thesis by simp
qed


subsection \<open>Rounding to 53 bits\<close>

lemma rne_of_int [simp]: "rne (real_of_int n) = n"
  by (simp add: rne_def)


lemma rne_floor_le: "\<lfloor>y\<rfloor> \<le> rne y"
  by (simp add: rne_def Let_def)

lemma rne_le_ceiling: "rne y \<le> \<lceil>y\<rceil>"
  unfolding rne_def Let_def by (auto; linarith)

lemma rne_abs_bound:
  assumes "\<bar>y\<bar> \<le> real_of_int N"
  shows "\<bar>rne y\<bar> \<le> N"
proof -
  from assms have "- N \<le> \<lfloor>y\<rfloor>" and "\<lceil>y\<rceil> \<le> N"
    by (simp_all add: le_floor_iff ceiling_le_iff abs_le_iff)
  with rne_floor_le [of y] rne_le_ceiling [of y] show ?thesis by linarith
qed

lemma fl64_zero [simp]: "fl64 0 = 0"
  by (simp add: fl64_def)

lemma fl64_eval:
  assumes "pow2 e \<le> \<bar>x\<bar>" and "\<bar>x\<bar> < pow2 (e + 1)"
  shows "fl64 x = real_of_int (rne (x / pow2 (e - 52))) * pow2 (e - 52)"
proof -
  have "x \<noteq> 0"
  proof
    assume "x = 0"
    with assms(1) pow2_pos [of e] show False by simp
  qed
  with expo_unique [OF assms] show ?thesis by (simp add: fl64_def)
qed

lemma fl64_double: "fl64 (2 * x) = 2 * fl64 x"
proof (cases "x = 0")
  case True
  then show ?thesis by simp
next
  case False
  let ?e = "expo x"
  have "pow2 (?e + 1 + 1) = 2 * pow2 (?e + 1)" by (rule pow2_Suc)
  with expo_bounds [OF False] pow2_Suc [of ?e]
  have "pow2 (?e + 1) \<le> \<bar>2 * x\<bar>" "\<bar>2 * x\<bar> < pow2 (?e + 1 + 1)"
    by (simp_all only: abs_mult)
  then have "fl64 (2 * x) =
      real_of_int (rne (2 * x / pow2 (?e + 1 - 52))) * pow2 (?e + 1 - 52)"
    by (rule fl64_eval)
  moreover have "pow2 (?e + 1 - 52) = 2 * pow2 (?e - 52)"
    using pow2_Suc [of "?e - 52"] by (simp add: algebra_simps)
  ultimately show ?thesis using False by (simp add: fl64_def)
qed

lemma fl64_half: "fl64 (x / 2) = fl64 x / 2"
  using fl64_double [of "x / 2"] by simp

lemma fl64_exact:
  assumes "x = real_of_int m * pow2 i" and "\<bar>m\<bar> < 2 ^ 53"
  shows "fl64 x = x"
proof (cases "m = 0")
  case True
  with assms show ?thesis by simp
next
  case False
  with assms(1) have nz: "x \<noteq> 0" by simp
  define j where "j = expo x - 52"
  from assms(2) have "real_of_int \<bar>m\<bar> < real_of_int (2 ^ 53)" by (simp only: of_int_less_iff)
  then have mr: "real_of_int \<bar>m\<bar> < 2 ^ 53" by simp
  have "\<bar>x\<bar> = real_of_int \<bar>m\<bar> * pow2 i"
    by (simp add: assms(1) abs_mult)
  also have "\<dots> < 2 ^ 53 * pow2 i"
    using mr pow2_pos [of i] by (rule mult_strict_right_mono)
  also have "\<dots> = pow2 i * pow2 53" by (simp only: pow2_53 mult.commute)
  also have "\<dots> = pow2 (i + 53)" by (rule pow2_add [symmetric])
  finally have "pow2 (expo x) < pow2 (i + 53)"
    using expo_bounds(1) [OF nz] by simp
  then have "expo x < i + 53" by (rule pow2_less_cancel)
  then have ij: "0 \<le> i - j" by (simp add: j_def)
  have "pow2 i = pow2 (i - j) * pow2 j"
    using pow2_add [of "i - j" j] by simp
  also have "pow2 (i - j) = real_of_int (2 ^ nat (i - j))"
    using ij by (simp add: pow2_def)
  finally have split: "pow2 i = real_of_int (2 ^ nat (i - j)) * pow2 j" .
  have xs: "x = real_of_int (m * 2 ^ nat (i - j)) * pow2 j"
    unfolding assms(1) by (subst split) simp
  then have "x / pow2 j = real_of_int (m * 2 ^ nat (i - j))"
    by simp
  then have "rne (x / pow2 j) = m * 2 ^ nat (i - j)"
    by (simp only: rne_of_int)
  then have "fl64 x = real_of_int (m * 2 ^ nat (i - j)) * pow2 j"
    using nz by (simp add: fl64_def j_def)
  with xs show ?thesis by simp
qed

lemma fl64_int: "\<bar>k\<bar> < 2 ^ 53 \<Longrightarrow> fl64 (real_of_int k) = real_of_int k"
  by (rule fl64_exact [where m = k and i = 0]) (simp_all add: pow2_def)


lemma fl64_idem [simp]: "fl64 (fl64 x) = fl64 x"
proof (cases "x = 0")
  case True
  then show ?thesis by simp
next
  case False
  define j where "j = expo x - 52"
  define M where "M = rne (x / pow2 j)"
  have fx: "fl64 x = real_of_int M * pow2 j"
    using False by (simp add: fl64_def j_def M_def)
  have e1: "expo x + 1 = j + 53" by (simp add: j_def)
  have "\<bar>x\<bar> < pow2 (expo x + 1)" by (rule expo_bounds(2) [OF False])
  also have "\<dots> = pow2 (j + 53)" by (simp only: e1)
  also have "\<dots> = pow2 j * pow2 53" by (rule pow2_add)
  also have "\<dots> = 2 ^ 53 * pow2 j" by (simp only: pow2_53 mult.commute)
  finally have "\<bar>x / pow2 j\<bar> \<le> 2 ^ 53"
    using pow2_pos [of j] by (simp add: abs_divide field_simps)
  then have "\<bar>x / pow2 j\<bar> \<le> real_of_int (2 ^ 53)" by simp
  then have Mb: "\<bar>M\<bar> \<le> 2 ^ 53" unfolding M_def by (rule rne_abs_bound)
  have top: "pow2 (j + 53) = 2 ^ 53 * pow2 j"
    by (simp only: pow2_add pow2_53 mult.commute)
  show ?thesis
  proof (cases "\<bar>M\<bar> < 2 ^ 53")
    case True
    show ?thesis by (rule fl64_exact [OF fx True])
  next
    case False
    with Mb have "\<bar>M\<bar> = 2 ^ 53" by simp
    then consider "M = 2 ^ 53" | "M = - (2 ^ 53)" by linarith
    then show ?thesis
    proof cases
      case 1
      then have a: "fl64 x = real_of_int 1 * pow2 (j + 53)" by (simp add: fx top)
      show ?thesis by (rule fl64_exact [OF a]) simp
    next
      case 2
      then have a: "fl64 x = real_of_int (- 1) * pow2 (j + 53)" by (simp add: fx top)
      show ?thesis by (rule fl64_exact [OF a]) simp
    qed
  qed
qed


subsection \<open>The loop in double precision, pass by pass\<close>

lemma projectLoop_f64_0:
  "projectLoop_f64 s ts bs rs 0 =
     \<lparr>LoopState.totalActive = startingPartners s, LoopState.cumulativeRev = 0,
      LoopState.cumulativeProfit = 0, LoopState.months = []\<rparr>"
  by (simp add: projectLoop_f64_def)

lemma projectLoop_f64_Suc:
  "projectLoop_f64 s ts bs rs (Suc n) =
     month_body_f64 (tierEcon_f64 ts bs rs) (tierMap ts) (fdiv (pctSmall s) 100)
       (fdiv (pctMedium s) 100) (fdiv (pctLarge s) 100) (fdiv (monthlyChurnPct s) 100)
       (fdiv (retailAttachPct s) 100) (newPartnersPerMonth s) (projectLoop_f64 s ts bs rs n)
       (Suc n)"
  by (simp add: projectLoop_f64_def Let_def)

lemma active_f64_Suc:
  "LoopState.totalActive (projectLoop_f64 s ts bs rs (Suc n)) =
     (if 1 \<le> n
      then fadd (fmul (LoopState.totalActive (projectLoop_f64 s ts bs rs n))
                   (fsub 1 (fdiv (monthlyChurnPct s) 100)))
             (newPartnersPerMonth s)
      else LoopState.totalActive (projectLoop_f64 s ts bs rs n))"
  by (simp add: projectLoop_f64_Suc month_body_f64_def Let_def)

lemma active_f64_1:
  "LoopState.totalActive (projectLoop_f64 s ts bs rs (Suc 0)) = startingPartners s"
  by (simp add: active_f64_Suc projectLoop_f64_0)

lemma months_f64_Suc:
  "months (projectLoop_f64 s ts bs rs (Suc n)) =
     months (projectLoop_f64 s ts bs rs n) @
     [\<lparr>month = Suc n, label = ''M'' @ show_nat (Suc n),
       MonthlyResult.totalActive =
         round2_f64 (LoopState.totalActive (projectLoop_f64 s ts bs rs (Suc n))),
       small = round2_f64 (monthCounts_f64 s ts bs rs (Suc n) Small),
       medium = round2_f64 (monthCounts_f64 s ts bs rs (Suc n) Medium),
       large = round2_f64 (monthCounts_f64 s ts bs rs (Suc n) Large),
       bulkRevenue = js_round (CohortSums.bulkRev (monthTotals_f64 s ts bs rs (Suc n))),
       retailRevenue = js_round (CohortSums.retailRev (monthTotals_f64 s ts bs rs (Suc n))),
       totalRevenue =
         js_round (fadd (CohortSums.bulkRev (monthTotals_f64 s ts bs rs (Suc n)))
                     (CohortSums.retailRev (monthTotals_f64 s ts bs rs (Suc n)))),
       MonthlyResult.bulkProfit =
         js_round (CohortSums.bulkProfit (monthTotals_f64 s ts bs rs (Suc n))),
       MonthlyResult.retailProfit =
         js_round (CohortSums.retailProfit (monthTotals_f64 s ts bs rs (Suc n))),
       MonthlyResult.totalProfit =
         js_round (fadd (CohortSums.bulkProfit (monthTotals_f64 s ts bs rs (Suc n)))
                     (CohortSums.retailProfit (monthTotals_f64 s ts bs rs (Suc n)))),
       marginPct =
         (if fadd (CohortSums.bulkRev (monthTotals_f64 s ts bs rs (Suc n)))
               (CohortSums.retailRev (monthTotals_f64 s ts bs rs (Suc n))) > 0
          then fdiv
                 (js_round
                    (fmul
                       (fdiv
                          (fadd (CohortSums.bulkProfit (monthTotals_f64 s ts bs rs (Suc n)))
                             (CohortSums.retailProfit (monthTotals_f64 s ts bs rs (Suc n))))
                          (fadd (CohortSums.bulkRev (monthTotals_f64 s ts bs rs (Suc n)))
                             (CohortSums.retailRev (monthTotals_f64 s ts bs rs (Suc n)))))
                       1000))
                 10
          else 0),
       MonthlyResult.cumulativeRev =
         js_round (LoopState.cumulativeRev (projectLoop_f64 s ts bs rs (Suc n))),
       MonthlyResult.cumulativeProfit =
         js_round (LoopState.cumulativeProfit (projectLoop_f64 s ts bs rs (Suc n)))\<rparr>]"
  unfolding monthTotals_f64_def monthCounts_f64_def active_f64_Suc
  by (simp add: projectLoop_f64_Suc month_body_f64_def Let_def)

lemma length_months_f64: "length (months (projectLoop_f64 s ts bs rs n)) = n"
  by (induction n) (simp_all add: projectLoop_f64_0 months_f64_Suc)

lemma months_f64_nth_stable:
  "k < n \<Longrightarrow> n \<le> N \<Longrightarrow>
     months (projectLoop_f64 s ts bs rs N) ! k = months (projectLoop_f64 s ts bs rs n) ! k"
proof (induction N)
  case 0
  then show ?case by simp
next
  case (Suc N)
  show ?case
  proof (cases "n = Suc N")
    case True
    then show ?thesis by simp
  next
    case False
    with Suc.prems have "n \<le> N" by simp
    with Suc have "months (projectLoop_f64 s ts bs rs N) ! k =
        months (projectLoop_f64 s ts bs rs n) ! k"
      by simp
    moreover from \<open>n \<le> N\<close> Suc.prems have "k < length (months (projectLoop_f64 s ts bs rs N))"
      by (simp add: length_months_f64)
    ultimately show ?thesis
      by (simp add: months_f64_Suc [of s ts bs rs N] nth_append)
  qed
qed

lemma projectScenario_f64_nth:
  assumes "k < 12"
  shows "projectScenario_f64 s ts bs rs ! k =
           last (months (projectLoop_f64 s ts bs rs (Suc k)))"
proof -
  have "months (projectLoop_f64 s ts bs rs 12) ! k =
          months (projectLoop_f64 s ts bs rs (Suc k)) ! k"
    using assms by (intro months_f64_nth_stable) simp_all
  also have "\<dots> = last (months (projectLoop_f64 s ts bs rs (Suc k)))"
    by (simp add: months_f64_Suc [of s ts bs rs k] nth_append length_months_f64)
  finally show ?thesis by (simp add: projectScenario_f64_def)
qed

lemma length_projectScenario_f64: "length (projectScenario_f64 s ts bs rs) = 12"
  by (simp add: projectScenario_f64_def length_months_f64)

lemma month_fields_f64:
  assumes "k < 12"
  shows "MonthlyResult.totalActive (projectScenario_f64 s ts bs rs ! k) =
           round2_f64 (LoopState.totalActive (projectLoop_f64 s ts bs rs (Suc k)))"
    and "small (projectScenario_f64 s ts bs rs ! k) =
           round2_f64 (monthCounts_f64 s ts bs rs (Suc k) Small)"
    and "medium (projectScenario_f64 s ts bs rs ! k) =
           round2_f64 (monthCounts_f64 s ts bs rs (Suc k) Medium)"
    and "large (projectScenario_f64 s ts bs rs ! k) =
           round2_f64 (monthCounts_f64 s ts bs rs (Suc k) Large)"
    and "bulkRevenue (projectScenario_f64 s ts bs rs ! k) =
           js_round (CohortSums.bulkRev (monthTotals_f64 s ts bs rs (Suc k)))"
    and "retailRevenue (projectScenario_f64 s ts bs rs ! k) =
           js_round (CohortSums.retailRev (monthTotals_f64 s ts bs rs (Suc k)))"
    and "totalRevenue (projectScenario_f64 s ts bs rs ! k) =
           js_round (fadd (CohortSums.bulkRev (monthTotals_f64 s ts bs rs (Suc k)))
                       (CohortSums.retailRev (monthTotals_f64 s ts bs rs (Suc k))))"
    and "MonthlyResult.bulkProfit (projectScenario_f64 s ts bs rs ! k) =
           js_round (CohortSums.bulkProfit (monthTotals_f64 s ts bs rs (Suc k)))"
    and "MonthlyResult.retailProfit (projectScenario_f64 s ts bs rs ! k) =
           js_round (CohortSums.retailProfit (monthTotals_f64 s ts bs rs (Suc k)))"
    and "MonthlyResult.totalProfit (projectScenario_f64 s ts bs rs ! k) =
           js_round (fadd (CohortSums.bulkProfit (monthTotals_f64 s ts bs rs (Suc k)))
                       (CohortSums.retailProfit (monthTotals_f64 s ts bs rs (Suc k))))"
  using assms by (simp_all add: projectScenario_f64_nth months_f64_Suc [of s ts bs rs k])

section \<open>Double precision: the claims\<close>

subsection \<open>Evaluating doubles\<close>

lemma bitlen_numeral: "bitlen (numeral n) = bitlen (numeral n div 2) + 1"
  by (subst compute_bitlen) simp

lemma bitlen_one [simp]: "bitlen 1 = 1"
  by (subst compute_bitlen) simp

lemmas f64_eval = fadd_def fsub_def fmul_def fdiv_def round2_f64_def fl64_def expo_def
  pow2_def rne_def js_round_def Let_def bitlen_numeral

lemma fl64_one [simp]: "fl64 1 = 1"
  using fl64_int [of 1] by simp

lemma fl64_half_one [simp]: "fl64 (1 / 2) = 1 / 2"
  using fl64_half [of 1] by simp


subsection \<open>The active partners\<close>




subsection \<open>Tier economics in double precision as sums\<close>

lemma fl64_ops [simp]:
  "fl64 (fadd a b) = fadd a b" "fl64 (fsub a b) = fsub a b"
  "fl64 (fmul a b) = fmul a b" "fl64 (fdiv a b) = fdiv a b"
  by (simp_all add: fadd_def fsub_def fmul_def fdiv_def)

lemma fadd_zero [simp]: "fadd 0 x = fl64 x" "fadd x 0 = fl64 x"
  by (simp_all add: fadd_def)

lemma foldl_bulk_step_f64:
  "foldl (bulk_step_f64 p) (a, b, rows) xs =
     (foldl fadd a (map (\<lambda>x. fmul (bagsNeeded_f64 p x) (wholesale x)) xs),
      foldl fadd b (map (\<lambda>x. fmul (bagsNeeded_f64 p x) (calcBulkMargin_f64 x)) xs),
      rows @ map (\<lambda>x. \<lparr>BreakdownRow.name = BulkProduct.name x,
                         bags = round2_f64 (bagsNeeded_f64 p x),
                         rev = round2_f64 (fmul (bagsNeeded_f64 p x) (wholesale x))\<rparr>) xs)"
  by (induction xs arbitrary: a b rows)
     (simp_all add: bulk_step_f64_def bagsNeeded_f64_def Let_def)

lemma foldl_retail_step_f64:
  "foldl (retail_step_f64 u) (a, b) xs =
     (foldl fadd a (map (\<lambda>x. fmul u (wholesalePrice x)) xs),
      foldl fadd b (map (\<lambda>x. fmul u (calcRetailMargin_f64 x)) xs))"
  by (induction xs arbitrary: a b) (simp_all add: retail_step_f64_def)

lemma calcTierEconomics_f64_eq:
  "calcTierEconomics_f64 tier bs rs =
     \<lparr>servingsPerMonth = fmul (fmul (drinksPerDay tier) (tspPerDrink tier)) (daysPerMonth tier),
      bulkBreakdown =
        map (\<lambda>x. \<lparr>BreakdownRow.name = BulkProduct.name x,
                   bags = round2_f64 (bagsNeeded_f64 (servingsPerProduct_f64 tier bs) x),
                   rev = round2_f64 (fmul (bagsNeeded_f64 (servingsPerProduct_f64 tier bs) x)
                                      (wholesale x))\<rparr>)
          (selectedBulk tier bs),
      bulkRev = round2_f64 (unroundedBulkRev_f64 tier bs),
      bulkProfit = round2_f64 (unroundedBulkProfit_f64 tier bs),
      retailRev = unroundedRetailRev_f64 tier rs,
      retailProfit = unroundedRetailProfit_f64 tier rs,
      totalRev = round2_f64 (fadd (unroundedBulkRev_f64 tier bs) (unroundedRetailRev_f64 tier rs)),
      totalProfit =
        round2_f64 (fadd (unroundedBulkProfit_f64 tier bs) (unroundedRetailProfit_f64 tier rs))\<rparr>"
  unfolding calcTierEconomics_f64_def Let_def foldl_bulk_step_f64 foldl_retail_step_f64
    unroundedBulkRev_f64_def unroundedBulkProfit_f64_def unroundedRetailRev_f64_def
    unroundedRetailProfit_f64_def servingsPerProduct_f64_def retailUnitsPerProduct_f64_def
  by simp

lemma default_bulk_f64:
  "DEFAULT_BULK_PRODUCTS_f64 =
     [\<lparr>BulkProduct.id = ''ev1'', name = ''Everyday Cafe Bag 1lb'', sizeLbs = 1, servings = 180,
       wholesale = 80, cogs = fl64 (1293 / 100)\<rparr>,
      \<lparr>BulkProduct.id = ''ev5'', name = ''Everyday Cafe Bag 5lb'', sizeLbs = 5, servings = 900,
       wholesale = 300, cogs = 60\<rparr>,
      \<lparr>BulkProduct.id = ''dk5'', name = ''Dusk Cafe Bag 5lb'', sizeLbs = 5, servings = 107,
       wholesale = 108, cogs = 53\<rparr>,
      \<lparr>BulkProduct.id = ''dk10'', name = ''Dusk Cafe Bag 10lb'', sizeLbs = 10, servings = 214,
       wholesale = 195, cogs = 100\<rparr>]"
proof -
  have "fl64 60 = 60" "fl64 53 = 53" "fl64 100 = 100"
    using fl64_int [of 60] fl64_int [of 53] fl64_int [of 100] by simp_all
  then show ?thesis
    by (simp add: DEFAULT_BULK_PRODUCTS_f64_def DEFAULT_BULK_PRODUCTS_def)
qed

lemma small_cafe_selection:
  "selectedBulk ((DEFAULT_TIERS ! 0)\<lparr>drinksPerDay := d\<rparr>) DEFAULT_BULK_PRODUCTS_f64 =
     [DEFAULT_BULK_PRODUCTS_f64 ! 0]"
  "selectedBulk ((DEFAULT_TIERS ! 0)\<lparr>drinksPerDay := d\<rparr>) DEFAULT_BULK_PRODUCTS =
     [DEFAULT_BULK_PRODUCTS ! 0]"
  by (simp_all add: default_bulk_f64 DEFAULT_BULK_PRODUCTS_def DEFAULT_TIERS_def
      selectedBulk_def includes_or_empty_def)


text \<open>
  Two tiers that the dashboard can be brought to.  The small cafe at 3 drinks a day has a
  bulk profit of \<open>0.5 * (80 - 12.93)\<close>, which in exact arithmetic is the tie \<open>33.535\<close> and
  rounds up, but in doubles lies below the tie: the engine returns \<open>33.53\<close>.  The large
  cafe, with the cost of the first pouch set to \<open>4.01\<close>, returns the retail profit
  \<open>149.875\<close>, which rounding to cents would have changed.
\<close>

lemma small_cafe_three_drinks:
  "TierEconomics.bulkProfit
     (calcTierEconomics_f64 ((DEFAULT_TIERS ! 0)\<lparr>drinksPerDay := 3\<rparr>)
        DEFAULT_BULK_PRODUCTS_f64 DEFAULT_RETAIL_PRODUCTS) = fl64 (3353 / 100)"
  "TierEconomics.bulkProfit
     (calcTierEconomics ((DEFAULT_TIERS ! 0)\<lparr>drinksPerDay := 3\<rparr>)
        DEFAULT_BULK_PRODUCTS DEFAULT_RETAIL_PRODUCTS) = 3354 / 100"
proof -
  have sp: "servingsPerProduct_f64 ((DEFAULT_TIERS ! 0)\<lparr>drinksPerDay := 3\<rparr>)
      DEFAULT_BULK_PRODUCTS_f64 = 90"
    unfolding servingsPerProduct_f64_def small_cafe_selection
    by (simp add: DEFAULT_TIERS_def f64_eval)
  have "unroundedBulkProfit_f64 ((DEFAULT_TIERS ! 0)\<lparr>drinksPerDay := 3\<rparr>)
      DEFAULT_BULK_PRODUCTS_f64 = fmul (fdiv 90 180) (fsub 80 (fl64 (1293 / 100)))"
    unfolding unroundedBulkProfit_f64_def small_cafe_selection sp
    by (simp add: default_bulk_f64 bagsNeeded_f64_def calcBulkMargin_f64_def)
  moreover have "round2_f64 (fmul (fdiv 90 180) (fsub 80 (fl64 (1293 / 100)))) = fl64 (3353 / 100)"
    by (simp add: f64_eval)
  ultimately show "TierEconomics.bulkProfit
     (calcTierEconomics_f64 ((DEFAULT_TIERS ! 0)\<lparr>drinksPerDay := 3\<rparr>)
        DEFAULT_BULK_PRODUCTS_f64 DEFAULT_RETAIL_PRODUCTS) = fl64 (3353 / 100)"
    by (simp add: calcTierEconomics_f64_eq)
  have sp': "servingsPerProduct ((DEFAULT_TIERS ! 0)\<lparr>drinksPerDay := 3\<rparr>)
      DEFAULT_BULK_PRODUCTS = 90"
    unfolding servingsPerProduct_def small_cafe_selection
    by (simp add: DEFAULT_TIERS_def)
  have u: "unroundedBulkProfit ((DEFAULT_TIERS ! 0)\<lparr>drinksPerDay := 3\<rparr>)
      DEFAULT_BULK_PRODUCTS = 6707 / 200"
    unfolding unroundedBulkProfit_def small_cafe_selection sp'
    by (simp add: DEFAULT_BULK_PRODUCTS_def bagsNeeded_def calcBulkMargin_def)
  show "TierEconomics.bulkProfit
     (calcTierEconomics ((DEFAULT_TIERS ! 0)\<lparr>drinksPerDay := 3\<rparr>)
        DEFAULT_BULK_PRODUCTS DEFAULT_RETAIL_PRODUCTS) = 3354 / 100"
    unfolding calcTierEconomics_eq u by (simp add: round2_def js_round_def)
qed

lemma large_cafe_retail_unrounded:
  "TierEconomics.retailProfit
     (calcTierEconomics_f64 (DEFAULT_TIERS ! 2) DEFAULT_BULK_PRODUCTS_f64
        (DEFAULT_RETAIL_PRODUCTS
           [0 := (DEFAULT_RETAIL_PRODUCTS ! 0)\<lparr>RetailProduct.cogs := fl64 (401 / 100)\<rparr>]))
     = 1199 / 8"
  "round2_f64 (1199 / 8) = fl64 (14988 / 100)"
  "fl64 (14988 / 100) \<noteq> 1199 / 8"
proof -
  let ?rs = "DEFAULT_RETAIL_PRODUCTS
           [0 := (DEFAULT_RETAIL_PRODUCTS ! 0)\<lparr>RetailProduct.cogs := fl64 (401 / 100)\<rparr>]"
  have sel: "selectedRetail (DEFAULT_TIERS ! 2) ?rs = ?rs"
    by (simp add: DEFAULT_RETAIL_PRODUCTS_def DEFAULT_TIERS_def selectedRetail_def
        includes_or_empty_def)
  have rs: "?rs = [\<lparr>RetailProduct.id = ''evp'', name = ''Everyday Pouch'', retailPrice = 24,
                   wholesalePrice = 12, cogs = fl64 (401 / 100)\<rparr>,
                  \<lparr>RetailProduct.id = ''dkp'', name = ''Dusk Pouch'', retailPrice = 24,
                   wholesalePrice = 12, cogs = 8\<rparr>]"
    by (simp add: DEFAULT_RETAIL_PRODUCTS_def)
  have un: "retailUnitsPerProduct_f64 (DEFAULT_TIERS ! 2) ?rs = fdiv 25 2"
    unfolding retailUnitsPerProduct_f64_def sel
    by (simp add: DEFAULT_RETAIL_PRODUCTS_def DEFAULT_TIERS_def)
  have "unroundedRetailProfit_f64 (DEFAULT_TIERS ! 2) ?rs =
      fadd (fmul (fdiv 25 2) (fsub 12 (fl64 (401 / 100)))) (fmul (fdiv 25 2) (fsub 12 8))"
    unfolding unroundedRetailProfit_f64_def sel un
    unfolding rs by (simp add: calcRetailMargin_f64_def)
  moreover have "fadd (fmul (fdiv 25 2) (fsub 12 (fl64 (401 / 100)))) (fmul (fdiv 25 2) (fsub 12 8))
      = 1199 / 8"
    by (simp add: f64_eval)
  ultimately show "TierEconomics.retailProfit
     (calcTierEconomics_f64 (DEFAULT_TIERS ! 2) DEFAULT_BULK_PRODUCTS_f64 ?rs) = 1199 / 8"
    by (simp add: calcTierEconomics_f64_eq)
  show "round2_f64 (1199 / 8) = fl64 (14988 / 100)" by (simp add: f64_eval)
  show "fl64 (14988 / 100) \<noteq> 1199 / 8" by (simp add: f64_eval)
qed

subsection \<open>Cohorts and tiers in double precision\<close>

lemma tierEcon_f64_snoc:
  "tierEcon_f64 (ts @ [t]) bs rs =
     (tierEcon_f64 ts bs rs)(Tier.id t \<mapsto> calcTierEconomics_f64 t bs rs)"
  by (simp add: tierEcon_f64_def)

lemma tierEcon_f64_distinct:
  "distinct (map Tier.id ts) \<Longrightarrow> i < length ts \<Longrightarrow>
     tierEcon_f64 ts bs rs (Tier.id (ts ! i)) = Some (calcTierEconomics_f64 (ts ! i) bs rs)"
proof (induction ts rule: rev_induct)
  case Nil
  then show ?case by simp
next
  case (snoc t ts)
  show ?case
  proof (cases "i < length ts")
    case True
    then have "Tier.id (ts ! i) \<in> Tier.id ` set ts" by simp
    moreover from snoc.prems(1) have "Tier.id t \<notin> Tier.id ` set ts" by simp
    ultimately have "Tier.id (ts ! i) \<noteq> Tier.id t" by metis
    with True snoc show ?thesis by (simp add: tierEcon_f64_snoc nth_append)
  next
    case False
    with snoc.prems(2) have "i = length ts" by simp
    then show ?thesis by (simp add: tierEcon_f64_snoc)
  qed
qed

lemma cohort_step_f64_missing:
  "length ts \<le> sizeIndex sz \<Longrightarrow> cohort_step_f64 te (tierMap ts) c ra acc sz = acc"
  by (simp add: cohort_step_f64_def tierMap_missing)

lemma cohort_step_f64_positional:
  assumes "distinct (map Tier.id ts)" and "[] \<notin> set (map Tier.id ts)"
  shows "cohort_step_f64 (tierEcon_f64 ts bs rs) (tierMap ts) c ra acc sz =
           (if sizeIndex sz < length ts
            then \<lparr>CohortSums.bulkRev =
                    fadd (CohortSums.bulkRev acc)
                      (fmul (c sz)
                         (TierEconomics.bulkRev
                            (calcTierEconomics_f64 (ts ! sizeIndex sz) bs rs))),
                  CohortSums.bulkProfit =
                    fadd (CohortSums.bulkProfit acc)
                      (fmul (c sz)
                         (TierEconomics.bulkProfit
                            (calcTierEconomics_f64 (ts ! sizeIndex sz) bs rs))),
                  CohortSums.retailRev =
                    fadd (CohortSums.retailRev acc)
                      (fmul (fmul (c sz)
                               (TierEconomics.retailRev
                                  (calcTierEconomics_f64 (ts ! sizeIndex sz) bs rs))) ra),
                  CohortSums.retailProfit =
                    fadd (CohortSums.retailProfit acc)
                      (fmul (fmul (c sz)
                               (TierEconomics.retailProfit
                                  (calcTierEconomics_f64 (ts ! sizeIndex sz) bs rs))) ra)\<rparr>
            else acc)"
proof (cases "sizeIndex sz < length ts")
  case True
  then have "Tier.id (ts ! sizeIndex sz) \<in> Tier.id ` set ts" by simp
  with assms(2) have "Tier.id (ts ! sizeIndex sz) \<noteq> []" by (metis set_map)
  with True assms(1) show ?thesis
    by (simp add: cohort_step_f64_def tierMap_present tierEcon_f64_distinct)
next
  case False
  then show ?thesis
    by (simp add: cohort_step_f64_missing)
qed

lemma cohortTotals_f64_positional:
  assumes "distinct (map Tier.id ts)" and "[] \<notin> set (map Tier.id ts)"
  shows "cohortTotals_f64 (tierEcon_f64 ts bs rs) (tierMap ts) c ra =
           \<lparr>CohortSums.bulkRev =
              positionalSum_f64 ts bs rs (\<lambda>sz e. fmul (c sz) (TierEconomics.bulkRev e)),
            CohortSums.bulkProfit =
              positionalSum_f64 ts bs rs (\<lambda>sz e. fmul (c sz) (TierEconomics.bulkProfit e)),
            CohortSums.retailRev =
              positionalSum_f64 ts bs rs
                (\<lambda>sz e. fmul (fmul (c sz) (TierEconomics.retailRev e)) ra),
            CohortSums.retailProfit =
              positionalSum_f64 ts bs rs
                (\<lambda>sz e. fmul (fmul (c sz) (TierEconomics.retailProfit e)) ra)\<rparr>"
  by (simp add: cohortTotals_f64_def cohort_step_f64_positional [OF assms]
      positionalSum_f64_def)

subsection \<open>The default tiers and catalogs in double precision\<close>

lemma default_retail_selection:
  "selectedRetail (DEFAULT_TIERS ! 0) DEFAULT_RETAIL_PRODUCTS = [DEFAULT_RETAIL_PRODUCTS ! 0]"
  "selectedRetail (DEFAULT_TIERS ! Suc 0) DEFAULT_RETAIL_PRODUCTS = [DEFAULT_RETAIL_PRODUCTS ! 0]"
  "selectedRetail (DEFAULT_TIERS ! 2) DEFAULT_RETAIL_PRODUCTS = DEFAULT_RETAIL_PRODUCTS"
  by (simp_all add: DEFAULT_TIERS_def DEFAULT_RETAIL_PRODUCTS_def selectedRetail_def
      includes_or_empty_def)

lemma default_bulk_selection:
  "selectedBulk (DEFAULT_TIERS ! 0) DEFAULT_BULK_PRODUCTS_f64 = [DEFAULT_BULK_PRODUCTS_f64 ! 0]"
  "selectedBulk (DEFAULT_TIERS ! Suc 0) DEFAULT_BULK_PRODUCTS_f64 =
     [DEFAULT_BULK_PRODUCTS_f64 ! 1]"
  "selectedBulk (DEFAULT_TIERS ! 2) DEFAULT_BULK_PRODUCTS_f64 =
     [DEFAULT_BULK_PRODUCTS_f64 ! 1, DEFAULT_BULK_PRODUCTS_f64 ! 2]"
  by (simp_all add: default_bulk_f64 DEFAULT_TIERS_def selectedBulk_def includes_or_empty_def)

lemma default_retail_f64:
  "unroundedRetailRev_f64 (DEFAULT_TIERS ! 0) DEFAULT_RETAIL_PRODUCTS = 120"
  "unroundedRetailProfit_f64 (DEFAULT_TIERS ! 0) DEFAULT_RETAIL_PRODUCTS = 80"
  "unroundedRetailRev_f64 (DEFAULT_TIERS ! Suc 0) DEFAULT_RETAIL_PRODUCTS = 180"
  "unroundedRetailProfit_f64 (DEFAULT_TIERS ! Suc 0) DEFAULT_RETAIL_PRODUCTS = 120"
  "unroundedRetailRev_f64 (DEFAULT_TIERS ! 2) DEFAULT_RETAIL_PRODUCTS = 300"
  "unroundedRetailProfit_f64 (DEFAULT_TIERS ! 2) DEFAULT_RETAIL_PRODUCTS = 150"
proof -
  have u: "retailUnitsPerProduct_f64 (DEFAULT_TIERS ! 0) DEFAULT_RETAIL_PRODUCTS = 10"
    "retailUnitsPerProduct_f64 (DEFAULT_TIERS ! Suc 0) DEFAULT_RETAIL_PRODUCTS = 15"
    "retailUnitsPerProduct_f64 (DEFAULT_TIERS ! 2) DEFAULT_RETAIL_PRODUCTS = 25 / 2"
    unfolding retailUnitsPerProduct_f64_def default_retail_selection
    by (simp_all add: DEFAULT_TIERS_def DEFAULT_RETAIL_PRODUCTS_def f64_eval)
  have v: "fmul 10 12 = 120" "fmul 10 (fsub 12 4) = 80" "fmul 15 12 = 180"
    "fmul 15 (fsub 12 4) = 120" "fadd (fmul (25 / 2) 12) (fmul (25 / 2) 12) = 300"
    "fadd (fmul (25 / 2) (fsub 12 4)) (fmul (25 / 2) (fsub 12 8)) = 150"
    "fl64 120 = 120" "fl64 80 = 80" "fl64 180 = 180"
    by (simp_all add: f64_eval)
  show "unroundedRetailRev_f64 (DEFAULT_TIERS ! 0) DEFAULT_RETAIL_PRODUCTS = 120"
    "unroundedRetailProfit_f64 (DEFAULT_TIERS ! 0) DEFAULT_RETAIL_PRODUCTS = 80"
    "unroundedRetailRev_f64 (DEFAULT_TIERS ! Suc 0) DEFAULT_RETAIL_PRODUCTS = 180"
    "unroundedRetailProfit_f64 (DEFAULT_TIERS ! Suc 0) DEFAULT_RETAIL_PRODUCTS = 120"
    "unroundedRetailRev_f64 (DEFAULT_TIERS ! 2) DEFAULT_RETAIL_PRODUCTS = 300"
    "unroundedRetailProfit_f64 (DEFAULT_TIERS ! 2) DEFAULT_RETAIL_PRODUCTS = 150"
    unfolding unroundedRetailRev_f64_def unroundedRetailProfit_f64_def
      default_retail_selection u
    by (simp_all add: DEFAULT_RETAIL_PRODUCTS_def calcRetailMargin_f64_def v)
qed

lemma default_bulk_sums_f64:
  "round2_f64 (unroundedBulkRev_f64 (DEFAULT_TIERS ! 0) DEFAULT_BULK_PRODUCTS_f64)
     = fl64 (13333 / 100)"
  "round2_f64 (unroundedBulkProfit_f64 (DEFAULT_TIERS ! 0) DEFAULT_BULK_PRODUCTS_f64)
     = fl64 (11178 / 100)"
  "round2_f64 (unroundedBulkRev_f64 (DEFAULT_TIERS ! Suc 0) DEFAULT_BULK_PRODUCTS_f64) = 400"
  "round2_f64 (unroundedBulkProfit_f64 (DEFAULT_TIERS ! Suc 0) DEFAULT_BULK_PRODUCTS_f64) = 320"
  "round2_f64 (unroundedBulkRev_f64 (DEFAULT_TIERS ! 2) DEFAULT_BULK_PRODUCTS_f64)
     = fl64 (120841 / 100)"
  "round2_f64 (unroundedBulkProfit_f64 (DEFAULT_TIERS ! 2) DEFAULT_BULK_PRODUCTS_f64)
     = fl64 (70262 / 100)"
proof -
  have sp: "servingsPerProduct_f64 (DEFAULT_TIERS ! 0) DEFAULT_BULK_PRODUCTS_f64 = 300"
    "servingsPerProduct_f64 (DEFAULT_TIERS ! Suc 0) DEFAULT_BULK_PRODUCTS_f64 = 1200"
    "servingsPerProduct_f64 (DEFAULT_TIERS ! 2) DEFAULT_BULK_PRODUCTS_f64 = 900"
    unfolding servingsPerProduct_f64_def default_bulk_selection
    by (simp_all add: DEFAULT_TIERS_def f64_eval)
  have v: "round2_f64 (fmul (fdiv 300 180) 80) = fl64 (13333 / 100)"
    "round2_f64 (fmul (fdiv 300 180) (fsub 80 (fl64 (1293 / 100)))) = fl64 (11178 / 100)"
    "round2_f64 (fmul (fdiv 1200 900) 300) = 400"
    "round2_f64 (fmul (fdiv 1200 900) (fsub 300 60)) = 320"
    "round2_f64 (fadd (fmul (fdiv 900 900) 300) (fmul (fdiv 900 107) 108))
       = fl64 (120841 / 100)"
    "round2_f64 (fadd (fmul (fdiv 900 900) (fsub 300 60)) (fmul (fdiv 900 107) (fsub 108 53)))
       = fl64 (70262 / 100)"
    by (simp_all add: f64_eval)
  have u: "unroundedBulkRev_f64 (DEFAULT_TIERS ! 0) DEFAULT_BULK_PRODUCTS_f64
      = fmul (fdiv 300 180) 80"
    "unroundedBulkProfit_f64 (DEFAULT_TIERS ! 0) DEFAULT_BULK_PRODUCTS_f64
      = fmul (fdiv 300 180) (fsub 80 (fl64 (1293 / 100)))"
    "unroundedBulkRev_f64 (DEFAULT_TIERS ! Suc 0) DEFAULT_BULK_PRODUCTS_f64
      = fmul (fdiv 1200 900) 300"
    "unroundedBulkProfit_f64 (DEFAULT_TIERS ! Suc 0) DEFAULT_BULK_PRODUCTS_f64
      = fmul (fdiv 1200 900) (fsub 300 60)"
    "unroundedBulkRev_f64 (DEFAULT_TIERS ! 2) DEFAULT_BULK_PRODUCTS_f64
      = fadd (fmul (fdiv 900 900) 300) (fmul (fdiv 900 107) 108)"
    "unroundedBulkProfit_f64 (DEFAULT_TIERS ! 2) DEFAULT_BULK_PRODUCTS_f64
      = fadd (fmul (fdiv 900 900) (fsub 300 60)) (fmul (fdiv 900 107) (fsub 108 53))"
    unfolding unroundedBulkRev_f64_def unroundedBulkProfit_f64_def default_bulk_selection sp
    unfolding default_bulk_f64
    by (simp_all add: bagsNeeded_f64_def calcBulkMargin_f64_def)
  show "round2_f64 (unroundedBulkRev_f64 (DEFAULT_TIERS ! 0) DEFAULT_BULK_PRODUCTS_f64)
     = fl64 (13333 / 100)"
  "round2_f64 (unroundedBulkProfit_f64 (DEFAULT_TIERS ! 0) DEFAULT_BULK_PRODUCTS_f64)
     = fl64 (11178 / 100)"
  "round2_f64 (unroundedBulkRev_f64 (DEFAULT_TIERS ! Suc 0) DEFAULT_BULK_PRODUCTS_f64) = 400"
  "round2_f64 (unroundedBulkProfit_f64 (DEFAULT_TIERS ! Suc 0) DEFAULT_BULK_PRODUCTS_f64) = 320"
  "round2_f64 (unroundedBulkRev_f64 (DEFAULT_TIERS ! 2) DEFAULT_BULK_PRODUCTS_f64)
     = fl64 (120841 / 100)"
  "round2_f64 (unroundedBulkProfit_f64 (DEFAULT_TIERS ! 2) DEFAULT_BULK_PRODUCTS_f64)
     = fl64 (70262 / 100)"
    unfolding u by (rule v)+
qed

lemma default_econ_f64:
  "TierEconomics.bulkRev (calcTierEconomics_f64 (DEFAULT_TIERS ! 0) DEFAULT_BULK_PRODUCTS_f64
     DEFAULT_RETAIL_PRODUCTS) = fl64 (13333 / 100)"
  "TierEconomics.bulkProfit (calcTierEconomics_f64 (DEFAULT_TIERS ! 0) DEFAULT_BULK_PRODUCTS_f64
     DEFAULT_RETAIL_PRODUCTS) = fl64 (11178 / 100)"
  "TierEconomics.retailRev (calcTierEconomics_f64 (DEFAULT_TIERS ! 0) DEFAULT_BULK_PRODUCTS_f64
     DEFAULT_RETAIL_PRODUCTS) = 120"
  "TierEconomics.retailProfit (calcTierEconomics_f64 (DEFAULT_TIERS ! 0)
     DEFAULT_BULK_PRODUCTS_f64 DEFAULT_RETAIL_PRODUCTS) = 80"
  "TierEconomics.bulkRev (calcTierEconomics_f64 (DEFAULT_TIERS ! Suc 0)
     DEFAULT_BULK_PRODUCTS_f64 DEFAULT_RETAIL_PRODUCTS) = 400"
  "TierEconomics.bulkProfit (calcTierEconomics_f64 (DEFAULT_TIERS ! Suc 0)
     DEFAULT_BULK_PRODUCTS_f64 DEFAULT_RETAIL_PRODUCTS) = 320"
  "TierEconomics.retailRev (calcTierEconomics_f64 (DEFAULT_TIERS ! Suc 0)
     DEFAULT_BULK_PRODUCTS_f64 DEFAULT_RETAIL_PRODUCTS) = 180"
  "TierEconomics.retailProfit (calcTierEconomics_f64 (DEFAULT_TIERS ! Suc 0)
     DEFAULT_BULK_PRODUCTS_f64 DEFAULT_RETAIL_PRODUCTS) = 120"
  "TierEconomics.bulkRev (calcTierEconomics_f64 (DEFAULT_TIERS ! 2) DEFAULT_BULK_PRODUCTS_f64
     DEFAULT_RETAIL_PRODUCTS) = fl64 (120841 / 100)"
  "TierEconomics.bulkProfit (calcTierEconomics_f64 (DEFAULT_TIERS ! 2) DEFAULT_BULK_PRODUCTS_f64
     DEFAULT_RETAIL_PRODUCTS) = fl64 (70262 / 100)"
  "TierEconomics.retailRev (calcTierEconomics_f64 (DEFAULT_TIERS ! 2) DEFAULT_BULK_PRODUCTS_f64
     DEFAULT_RETAIL_PRODUCTS) = 300"
  "TierEconomics.retailProfit (calcTierEconomics_f64 (DEFAULT_TIERS ! 2)
     DEFAULT_BULK_PRODUCTS_f64 DEFAULT_RETAIL_PRODUCTS) = 150"
  unfolding calcTierEconomics_f64_eq
  by (simp_all add: default_retail_f64 default_bulk_sums_f64)

lemma default_cohortTotals_f64:
  "cohortTotals_f64 (tierEcon_f64 DEFAULT_TIERS DEFAULT_BULK_PRODUCTS_f64 DEFAULT_RETAIL_PRODUCTS)
     (tierMap DEFAULT_TIERS) c ra =
     \<lparr>CohortSums.bulkRev =
        fadd (fadd (fmul (c Small) (fl64 (13333 / 100))) (fmul (c Medium) 400))
          (fmul (c Large) (fl64 (120841 / 100))),
      CohortSums.bulkProfit =
        fadd (fadd (fmul (c Small) (fl64 (11178 / 100))) (fmul (c Medium) 320))
          (fmul (c Large) (fl64 (70262 / 100))),
      CohortSums.retailRev =
        fadd (fadd (fmul (fmul (c Small) 120) ra) (fmul (fmul (c Medium) 180) ra))
          (fmul (fmul (c Large) 300) ra),
      CohortSums.retailProfit =
        fadd (fadd (fmul (fmul (c Small) 80) ra) (fmul (fmul (c Medium) 120) ra))
          (fmul (fmul (c Large) 150) ra)\<rparr>"
proof -
  have l: "length DEFAULT_TIERS = 3" by (simp add: DEFAULT_TIERS_def)
  show ?thesis
    unfolding cohortTotals_f64_positional [OF default_ids] positionalSum_f64_def
    by (simp add: l default_econ_f64)
qed

lemma default_monthTotals_f64:
  "monthTotals_f64 s DEFAULT_TIERS DEFAULT_BULK_PRODUCTS_f64 DEFAULT_RETAIL_PRODUCTS m =
     \<lparr>CohortSums.bulkRev =
        fadd (fadd (fmul (monthCounts_f64 s DEFAULT_TIERS DEFAULT_BULK_PRODUCTS_f64
                            DEFAULT_RETAIL_PRODUCTS m Small) (fl64 (13333 / 100)))
                (fmul (monthCounts_f64 s DEFAULT_TIERS DEFAULT_BULK_PRODUCTS_f64
                         DEFAULT_RETAIL_PRODUCTS m Medium) 400))
          (fmul (monthCounts_f64 s DEFAULT_TIERS DEFAULT_BULK_PRODUCTS_f64
                   DEFAULT_RETAIL_PRODUCTS m Large) (fl64 (120841 / 100))),
      CohortSums.bulkProfit =
        fadd (fadd (fmul (monthCounts_f64 s DEFAULT_TIERS DEFAULT_BULK_PRODUCTS_f64
                            DEFAULT_RETAIL_PRODUCTS m Small) (fl64 (11178 / 100)))
                (fmul (monthCounts_f64 s DEFAULT_TIERS DEFAULT_BULK_PRODUCTS_f64
                         DEFAULT_RETAIL_PRODUCTS m Medium) 320))
          (fmul (monthCounts_f64 s DEFAULT_TIERS DEFAULT_BULK_PRODUCTS_f64
                   DEFAULT_RETAIL_PRODUCTS m Large) (fl64 (70262 / 100))),
      CohortSums.retailRev =
        fadd (fadd (fmul (fmul (monthCounts_f64 s DEFAULT_TIERS DEFAULT_BULK_PRODUCTS_f64
                                  DEFAULT_RETAIL_PRODUCTS m Small) 120)
                      (fdiv (retailAttachPct s) 100))
                (fmul (fmul (monthCounts_f64 s DEFAULT_TIERS DEFAULT_BULK_PRODUCTS_f64
                               DEFAULT_RETAIL_PRODUCTS m Medium) 180)
                   (fdiv (retailAttachPct s) 100)))
          (fmul (fmul (monthCounts_f64 s DEFAULT_TIERS DEFAULT_BULK_PRODUCTS_f64
                         DEFAULT_RETAIL_PRODUCTS m Large) 300)
             (fdiv (retailAttachPct s) 100)),
      CohortSums.retailProfit =
        fadd (fadd (fmul (fmul (monthCounts_f64 s DEFAULT_TIERS DEFAULT_BULK_PRODUCTS_f64
                                  DEFAULT_RETAIL_PRODUCTS m Small) 80)
                      (fdiv (retailAttachPct s) 100))
                (fmul (fmul (monthCounts_f64 s DEFAULT_TIERS DEFAULT_BULK_PRODUCTS_f64
                               DEFAULT_RETAIL_PRODUCTS m Medium) 120)
                   (fdiv (retailAttachPct s) 100)))
          (fmul (fmul (monthCounts_f64 s DEFAULT_TIERS DEFAULT_BULK_PRODUCTS_f64
                         DEFAULT_RETAIL_PRODUCTS m Large) 150)
             (fdiv (retailAttachPct s) 100))\<rparr>"
  unfolding monthTotals_f64_def default_cohortTotals_f64 by (rule refl)

lemma monthCounts_f64_simps:
  "monthCounts_f64 s ts bs rs m Small =
     fmul (LoopState.totalActive (projectLoop_f64 s ts bs rs m)) (fdiv (pctSmall s) 100)"
  "monthCounts_f64 s ts bs rs m Medium =
     fmul (LoopState.totalActive (projectLoop_f64 s ts bs rs m)) (fdiv (pctMedium s) 100)"
  "monthCounts_f64 s ts bs rs m Large =
     fmul (LoopState.totalActive (projectLoop_f64 s ts bs rs m)) (fdiv (pctLarge s) 100)"
  by (simp_all add: monthCounts_f64_def cohortCounts_f64_def)

lemma active_f64_2:
  "LoopState.totalActive (projectLoop_f64 s ts bs rs 2) =
     fadd (fmul (startingPartners s) (fsub 1 (fdiv (monthlyChurnPct s) 100)))
       (newPartnersPerMonth s)"
  using active_f64_Suc [of s ts bs rs "Suc 0"] by (simp add: active_f64_1 numeral_2_eq_2)


subsection \<open>Retail revenue and the attach rate\<close>











subsection \<open>The roundings of a monthly record\<close>







lemma base_month1_profit_f64:
  "MonthlyResult.bulkProfit (projectScenario_f64 BASE_CASE DEFAULT_TIERS
     DEFAULT_BULK_PRODUCTS_f64 DEFAULT_RETAIL_PRODUCTS ! 0) = 273"
  "MonthlyResult.retailProfit (projectScenario_f64 BASE_CASE DEFAULT_TIERS
     DEFAULT_BULK_PRODUCTS_f64 DEFAULT_RETAIL_PRODUCTS ! 0) = 52"
  "MonthlyResult.totalProfit (projectScenario_f64 BASE_CASE DEFAULT_TIERS
     DEFAULT_BULK_PRODUCTS_f64 DEFAULT_RETAIL_PRODUCTS ! 0) = 326"
proof -
  have t: "CohortSums.bulkProfit (monthTotals_f64 BASE_CASE DEFAULT_TIERS
      DEFAULT_BULK_PRODUCTS_f64 DEFAULT_RETAIL_PRODUCTS (Suc 0))
      = 2403822689388069 / 8796093022208"
    "CohortSums.retailProfit (monthTotals_f64 BASE_CASE DEFAULT_TIERS
      DEFAULT_BULK_PRODUCTS_f64 DEFAULT_RETAIL_PRODUCTS (Suc 0)) = 209 / 4"
    unfolding default_monthTotals_f64 monthCounts_f64_simps active_f64_1
    by (simp_all add: base_fields f64_eval)
  have u: "fadd (2403822689388069 / 8796093022208) (209 / 4)
      = 2863418549798437 / 8796093022208"
    by (simp add: f64_eval)
  show "MonthlyResult.bulkProfit (projectScenario_f64 BASE_CASE DEFAULT_TIERS
     DEFAULT_BULK_PRODUCTS_f64 DEFAULT_RETAIL_PRODUCTS ! 0) = 273"
  "MonthlyResult.retailProfit (projectScenario_f64 BASE_CASE DEFAULT_TIERS
     DEFAULT_BULK_PRODUCTS_f64 DEFAULT_RETAIL_PRODUCTS ! 0) = 52"
  "MonthlyResult.totalProfit (projectScenario_f64 BASE_CASE DEFAULT_TIERS
     DEFAULT_BULK_PRODUCTS_f64 DEFAULT_RETAIL_PRODUCTS ! 0) = 326"
    by (simp_all add: month_fields_f64 t u js_round_def)
qed



text \<open>
  It also occurs for the profit, in month 1 of the Base Case: \<open>totalProfit = 326\<close>
  against \<open>bulkProfit + retailProfit = 273 + 52\<close>.  And with the share of large cafes
  of the Base Case set to 9 percent, the retail sum of month 2 is the tie \<open>223.5\<close> in
  exact arithmetic but lies below it in doubles: the engine returns 223.
\<close>

lemma base_month1_profit_differs:
  "MonthlyResult.totalProfit (projectScenario_f64 BASE_CASE DEFAULT_TIERS
     DEFAULT_BULK_PRODUCTS_f64 DEFAULT_RETAIL_PRODUCTS ! 0)
   - (MonthlyResult.bulkProfit (projectScenario_f64 BASE_CASE DEFAULT_TIERS
        DEFAULT_BULK_PRODUCTS_f64 DEFAULT_RETAIL_PRODUCTS ! 0)
      + MonthlyResult.retailProfit (projectScenario_f64 BASE_CASE DEFAULT_TIERS
          DEFAULT_BULK_PRODUCTS_f64 DEFAULT_RETAIL_PRODUCTS ! 0)) = 1"
  by (simp add: base_month1_profit_f64)

lemma base_nine_percent_large_month2:
  "retailRevenue (projectScenario_f64 (BASE_CASE\<lparr>pctLarge := 9\<rparr>) DEFAULT_TIERS
     DEFAULT_BULK_PRODUCTS_f64 DEFAULT_RETAIL_PRODUCTS ! 1) = 223"
  "retailRevenue (projectScenario (BASE_CASE\<lparr>pctLarge := 9\<rparr>) DEFAULT_TIERS
     DEFAULT_BULK_PRODUCTS DEFAULT_RETAIL_PRODUCTS ! 1) = 224"
proof -
  have r: "CohortSums.retailRev (monthTotals_f64 (BASE_CASE\<lparr>pctLarge := 9\<rparr>) DEFAULT_TIERS
      DEFAULT_BULK_PRODUCTS_f64 DEFAULT_RETAIL_PRODUCTS 2) = 7863707161853951 / 35184372088832"
    unfolding default_monthTotals_f64 monthCounts_f64_simps active_f64_2
    by (simp add: base_fields f64_eval)
  show "retailRevenue (projectScenario_f64 (BASE_CASE\<lparr>pctLarge := 9\<rparr>) DEFAULT_TIERS
     DEFAULT_BULK_PRODUCTS_f64 DEFAULT_RETAIL_PRODUCTS ! 1) = 223"
    by (simp add: month_fields_f64 numeral_2_eq_2 [symmetric] r js_round_def)
  have r': "CohortSums.retailRev (monthTotals (BASE_CASE\<lparr>pctLarge := 9\<rparr>) DEFAULT_TIERS
      DEFAULT_BULK_PRODUCTS DEFAULT_RETAIL_PRODUCTS (Suc (Suc 0))) = 447 / 2"
    unfolding default_monthTotals Let_def active_2
    by (simp add: base_fields)
  show "retailRevenue (projectScenario (BASE_CASE\<lparr>pctLarge := 9\<rparr>) DEFAULT_TIERS
     DEFAULT_BULK_PRODUCTS DEFAULT_RETAIL_PRODUCTS ! 1) = 224"
    by (simp add: month_fields r' js_round_def)
qed

subsection \<open>The cohort split\<close>

lemma overfull_mix_fields:
  "startingPartners OVERFULL_MIX = 1" "pctSmall OVERFULL_MIX = 50"
  "pctMedium OVERFULL_MIX = 35" "pctLarge OVERFULL_MIX = 25"
  by (simp_all add: OVERFULL_MIX_def BASE_CASE_def)

lemma overfull_mix_values:
  "round2_f64 (fmul 1 (fdiv 50 100)) = 1 / 2"
  "round2_f64 (fmul 1 (fdiv 35 100)) = fl64 (35 / 100)"
  "round2_f64 (fmul 1 (fdiv 25 100)) = 1 / 4" "round2_f64 1 = 1"
  "1 / 2 + fl64 (35 / 100) + 1 / 4 \<noteq> (1::real)"
  by (simp_all add: f64_eval)

text \<open>
  Claim C4.  For every scenario and every month the cohort counts are computed literally,
  in double precision, as \<open>totalActive * (pct / 100)\<close> for each of the three shares, with
  no normalisation: the returned fields \<open>small\<close>, \<open>medium\<close> and \<open>large\<close> are these products
  rounded to two decimals, and the sums of the month are taken with these products as
  counts.  When the three shares do not add up to 100 the split is applied as it is:
  with the shares 50, 35 and 25 and one starting partner, the three returned counts of
  month 1 add up to \<open>1.1\<close>, not to the returned \<open>totalActive = 1\<close>.
\<close>

theorem cohort_split_literal_f64:
  "(\<forall>m. 1 \<le> m \<and> m \<le> 12 \<longrightarrow>
      small (projectScenario_f64 s ts bs rs ! (m - 1))
        = round2_f64 (fmul (LoopState.totalActive (projectLoop_f64 s ts bs rs m))
                        (fdiv (pctSmall s) 100))
      \<and> medium (projectScenario_f64 s ts bs rs ! (m - 1))
        = round2_f64 (fmul (LoopState.totalActive (projectLoop_f64 s ts bs rs m))
                        (fdiv (pctMedium s) 100))
      \<and> large (projectScenario_f64 s ts bs rs ! (m - 1))
        = round2_f64 (fmul (LoopState.totalActive (projectLoop_f64 s ts bs rs m))
                        (fdiv (pctLarge s) 100))
      \<and> monthTotals_f64 s ts bs rs m
        = cohortTotals_f64 (tierEcon_f64 ts bs rs) (tierMap ts)
            (\<lambda>sz. fmul (LoopState.totalActive (projectLoop_f64 s ts bs rs m))
                     (fdiv (case sz of Small \<Rightarrow> pctSmall s | Medium \<Rightarrow> pctMedium s
                                 | Large \<Rightarrow> pctLarge s) 100))
            (fdiv (retailAttachPct s) 100))
   \<and> small (projectScenario_f64 OVERFULL_MIX ts bs rs ! 0)
       + medium (projectScenario_f64 OVERFULL_MIX ts bs rs ! 0)
       + large (projectScenario_f64 OVERFULL_MIX ts bs rs ! 0)
     \<noteq> MonthlyResult.totalActive (projectScenario_f64 OVERFULL_MIX ts bs rs ! 0)"
proof (intro conjI allI impI)
  fix m :: nat
  assume "1 \<le> m \<and> m \<le> 12"
  then obtain k where k: "m = Suc k" "k < 12" by (cases m) auto
  then show "small (projectScenario_f64 s ts bs rs ! (m - 1))
        = round2_f64 (fmul (LoopState.totalActive (projectLoop_f64 s ts bs rs m))
                        (fdiv (pctSmall s) 100))"
    "medium (projectScenario_f64 s ts bs rs ! (m - 1))
        = round2_f64 (fmul (LoopState.totalActive (projectLoop_f64 s ts bs rs m))
                        (fdiv (pctMedium s) 100))"
    "large (projectScenario_f64 s ts bs rs ! (m - 1))
        = round2_f64 (fmul (LoopState.totalActive (projectLoop_f64 s ts bs rs m))
                        (fdiv (pctLarge s) 100))"
    by (simp_all add: month_fields_f64 monthCounts_f64_simps)
  have "monthCounts_f64 s ts bs rs m =
      (\<lambda>sz. fmul (LoopState.totalActive (projectLoop_f64 s ts bs rs m))
                     (fdiv (case sz of Small \<Rightarrow> pctSmall s | Medium \<Rightarrow> pctMedium s
                                 | Large \<Rightarrow> pctLarge s) 100))"
    by (rule ext) (simp add: monthCounts_f64_def cohortCounts_f64_def split: Size.splits)
  then show "monthTotals_f64 s ts bs rs m
        = cohortTotals_f64 (tierEcon_f64 ts bs rs) (tierMap ts)
            (\<lambda>sz. fmul (LoopState.totalActive (projectLoop_f64 s ts bs rs m))
                     (fdiv (case sz of Small \<Rightarrow> pctSmall s | Medium \<Rightarrow> pctMedium s
                                 | Large \<Rightarrow> pctLarge s) 100))
            (fdiv (retailAttachPct s) 100)"
    by (simp add: monthTotals_f64_def)
next
  show "small (projectScenario_f64 OVERFULL_MIX ts bs rs ! 0)
       + medium (projectScenario_f64 OVERFULL_MIX ts bs rs ! 0)
       + large (projectScenario_f64 OVERFULL_MIX ts bs rs ! 0)
     \<noteq> MonthlyResult.totalActive (projectScenario_f64 OVERFULL_MIX ts bs rs ! 0)"
    unfolding month_fields_f64 [of 0, simplified] monthCounts_f64_simps active_f64_1
      overfull_mix_fields overfull_mix_values
    by (rule overfull_mix_values(5))
qed

theorem cohort_split_literal_f64_witness:
  "(1::nat) \<le> 1 \<and> (1::nat) \<le> 12
   \<and> small (projectScenario_f64 OVERFULL_MIX DEFAULT_TIERS DEFAULT_BULK_PRODUCTS_f64
        DEFAULT_RETAIL_PRODUCTS ! 0) = 1 / 2
   \<and> medium (projectScenario_f64 OVERFULL_MIX DEFAULT_TIERS DEFAULT_BULK_PRODUCTS_f64
        DEFAULT_RETAIL_PRODUCTS ! 0) = fl64 (35 / 100)
   \<and> large (projectScenario_f64 OVERFULL_MIX DEFAULT_TIERS DEFAULT_BULK_PRODUCTS_f64
        DEFAULT_RETAIL_PRODUCTS ! 0) = 1 / 4"
proof -
  have m: "(1::nat) \<le> 1 \<and> (1::nat) \<le> 12" by simp
  note t = cohort_split_literal_f64
    [of OVERFULL_MIX DEFAULT_TIERS DEFAULT_BULK_PRODUCTS_f64 DEFAULT_RETAIL_PRODUCTS,
     THEN conjunct1, rule_format, OF m]
  have a: "LoopState.totalActive (projectLoop_f64 OVERFULL_MIX DEFAULT_TIERS
      DEFAULT_BULK_PRODUCTS_f64 DEFAULT_RETAIL_PRODUCTS 1) = 1"
    using active_f64_1 [of OVERFULL_MIX] by (simp add: overfull_mix_fields)
  from t show ?thesis
    unfolding a overfull_mix_fields overfull_mix_values by simp
qed

text \<open>
  With five starting partners the Base Case has \<open>6.9\<close> active partners in month 2, and
  its 15 percent of large cafes are the tie \<open>1.035\<close> in exact arithmetic; the double lies
  below it and the engine returns \<open>1.03\<close>.
\<close>

lemma base_five_starting_month2:
  "large (projectScenario_f64 (BASE_CASE\<lparr>startingPartners := 5\<rparr>) DEFAULT_TIERS
     DEFAULT_BULK_PRODUCTS_f64 DEFAULT_RETAIL_PRODUCTS ! 1) = fl64 (103 / 100)"
  "large (projectScenario (BASE_CASE\<lparr>startingPartners := 5\<rparr>) DEFAULT_TIERS
     DEFAULT_BULK_PRODUCTS DEFAULT_RETAIL_PRODUCTS ! 1) = 104 / 100"
proof -
  have v: "round2_f64 (fmul (fadd (fmul 5 (fsub 1 (fdiv 2 100))) 2) (fdiv 15 100))
      = fl64 (103 / 100)"
    by (simp add: f64_eval)
  show "large (projectScenario_f64 (BASE_CASE\<lparr>startingPartners := 5\<rparr>) DEFAULT_TIERS
     DEFAULT_BULK_PRODUCTS_f64 DEFAULT_RETAIL_PRODUCTS ! 1) = fl64 (103 / 100)"
    unfolding One_nat_def month_fields_f64 [of "Suc 0", simplified] monthCounts_f64_simps
      active_f64_Suc [of _ _ _ _ "Suc 0", simplified] active_f64_1
    by (simp add: base_fields v)
  show "large (projectScenario (BASE_CASE\<lparr>startingPartners := 5\<rparr>) DEFAULT_TIERS
     DEFAULT_BULK_PRODUCTS DEFAULT_RETAIL_PRODUCTS ! 1) = 104 / 100"
    by (simp add: month_fields active_2 base_fields round2_def js_round_def)
qed

end
